theory Spec2Isabelle
  imports Main
begin

unbundle bit_operations_syntax

section \<open>JavaScript values\<close>

text \<open>
  An optional string parameter (\<^verbatim>\<open>containerName?: string\<close>) is \<open>None\<close> when it is
  \<^verbatim>\<open>undefined\<close>. The source resolves defaults with \<^verbatim>\<open>a || b\<close>, which takes \<open>b\<close> when
  \<open>a\<close> is falsy: \<^verbatim>\<open>undefined\<close> or the empty string.
\<close>

type_synonym js_string = "string option"

definition truthy :: "js_string \<Rightarrow> bool" where
  "truthy s = (case s of None \<Rightarrow> False | Some t \<Rightarrow> t \<noteq> [])"

definition js_or :: "js_string \<Rightarrow> js_string \<Rightarrow> js_string" where
  "js_or a b = (if truthy a then a else b)"

text \<open>A field that holds an object, \<^verbatim>\<open>null\<close> or \<^verbatim>\<open>undefined\<close>.\<close>

datatype 'a js_ref = RefUndefined | RefNull | Ref 'a

text \<open>
  Thrown and rejected values: the \<^verbatim>\<open>TypeError\<close> of a member access on \<^verbatim>\<open>null\<close>, a
  \<^verbatim>\<open>new Error(message)\<close>, and an error object of one of the two SDKs, which carries a
  \<^verbatim>\<open>code\<close>.
\<close>

datatype js_error = TypeError | Error string | SdkError string

fun code :: "js_error \<Rightarrow> js_string" where
  "code (SdkError c) = Some c"
| "code TypeError = None"
| "code (Error m) = None"

definition ERROR_CODE_NOT_FOUND :: string where
  "ERROR_CODE_NOT_FOUND = ''NotFound''"

text \<open>
  What the \<^verbatim>\<open>Promise<any>\<close> methods of the multi storage client resolve to: \<^verbatim>\<open>null\<close>, a
  string (the not-found code), a caught error, or the object fetched from S3.
\<close>

datatype js_value = JsNull | JsString string | JsError js_error | JsPayload string

section \<open>The two SDKs and the file system\<close>

text \<open>
  The SDK clients are outside the repository. Each method is taken as a parameter: the
  answer the SDK gives for the arguments of the call. A callback \<^verbatim>\<open>(error, result)\<close>
  follows Node's convention that exactly one of the two is set, so it is a sum with the
  error on the left. \<^verbatim>\<open>getBlobProperties\<close> answers with an error or with
  \<^verbatim>\<open>status.isSuccessful\<close>; the two listings answer with the \<^verbatim>\<open>name\<close> (\<^verbatim>\<open>Key\<close>) of every
  entry of \<^verbatim>\<open>result.entries\<close> (\<^verbatim>\<open>result.Contents\<close>); \<^verbatim>\<open>upload\<close> also receives the local
  path its \<^verbatim>\<open>Body\<close> stream reads, and the content type as given (when \<^verbatim>\<open>undefined\<close>, the
  source looks it up from that same local path).
\<close>

record BlobService =
  getBlobProperties :: "js_string \<Rightarrow> string \<Rightarrow> js_error + bool"
  listBlobsSegmentedWithPrefix :: "js_string \<Rightarrow> js_string \<Rightarrow> js_error + string list"
  getBlobToLocalFile :: "js_string \<Rightarrow> string \<Rightarrow> string \<Rightarrow> js_error + unit"
  createBlockBlobFromLocalFile :: "js_string \<Rightarrow> string \<Rightarrow> string \<Rightarrow> js_error + unit"
  deleteBlob :: "js_string \<Rightarrow> string \<Rightarrow> js_error option"

record S3 =
  headObject :: "js_string \<Rightarrow> string \<Rightarrow> js_error option"
  listObjectsV2 :: "js_string \<Rightarrow> js_string \<Rightarrow> js_error + string list"
  getObject :: "js_string \<Rightarrow> string \<Rightarrow> js_error + string"
  upload :: "js_string \<Rightarrow> string \<Rightarrow> string \<Rightarrow> js_string \<Rightarrow> js_error + unit"
  deleteObjects :: "js_string \<Rightarrow> string list \<Rightarrow> js_error option"

text \<open>The calls a method issues, in the order it issues them.\<close>

datatype effect =
    GetBlobProperties js_string string
  | ListBlobsSegmentedWithPrefix js_string js_string
  | GetBlobToLocalFile js_string string string
  | CreateBlockBlobFromLocalFile js_string string string
  | DeleteBlob js_string string
  | HeadObject js_string string
  | ListObjectsV2 js_string js_string
  | GetObject js_string string
  | Upload js_string string string js_string
  | DeleteObjects js_string "string list"
  | FsCreateWriteStream string
  | FsCreateReadStream string
  | FsUnlink string

text \<open>
  A settled promise together with the calls issued on the way: \<open>Inl\<close> is a rejection
  (or an exception thrown inside an \<^verbatim>\<open>async\<close> function), \<open>Inr\<close> the resolved value.
\<close>

type_synonym 'a outcome = "(js_error + 'a) \<times> effect list"

definition resolve :: "'a \<Rightarrow> 'a outcome" where
  "resolve x = (Inr x, [])"

definition reject :: "js_error \<Rightarrow> 'a outcome" where
  "reject e = (Inl e, [])"

definition await :: "'a outcome \<Rightarrow> ('a \<Rightarrow> 'b outcome) \<Rightarrow> 'b outcome" where
  "await m f =
     (case m of
        (Inl e, t) \<Rightarrow> (Inl e, t)
      | (Inr x, t) \<Rightarrow> (case f x of (r, t') \<Rightarrow> (r, t @ t')))"

definition try_catch :: "'a outcome \<Rightarrow> (js_error \<Rightarrow> 'a outcome) \<Rightarrow> 'a outcome" where
  "try_catch m h =
     (case m of
        (Inl e, t) \<Rightarrow> (case h e of (r, t') \<Rightarrow> (r, t @ t'))
      | (Inr x, t) \<Rightarrow> (Inr x, t))"

text \<open>A member access \<^verbatim>\<open>field.method(...)\<close>: a \<^verbatim>\<open>TypeError\<close> unless the field holds an object.\<close>

definition member :: "'a js_ref \<Rightarrow> ('a \<Rightarrow> 'b outcome) \<Rightarrow> 'b outcome" where
  "member r f = (case r of Ref x \<Rightarrow> f x | RefNull \<Rightarrow> reject TypeError | RefUndefined \<Rightarrow> reject TypeError)"

definition sdk_call :: "effect \<Rightarrow> 'a outcome \<Rightarrow> 'a outcome" where
  "sdk_call c m = (case m of (r, t) \<Rightarrow> (r, c # t))"

section \<open>AzureBlobStorageClient\<close>

record AzureBlobStorageClient =
  azureBlobService :: "BlobService js_ref"
  defaultContainerName :: js_string

definition new_AzureBlobStorageClient :: AzureBlobStorageClient where
  "new_AzureBlobStorageClient = \<lparr>azureBlobService = RefNull, defaultContainerName = Some []\<rparr>"

definition Azure_isInitialized :: "AzureBlobStorageClient \<Rightarrow> bool" where
  "Azure_isInitialized c = (case azureBlobService c of RefUndefined \<Rightarrow> False | RefNull \<Rightarrow> True | Ref s \<Rightarrow> True)"

definition Azure_initialize ::
  "(string \<Rightarrow> string \<Rightarrow> BlobService) \<Rightarrow> AzureBlobStorageClient \<Rightarrow> string \<Rightarrow> string \<Rightarrow> js_string
     \<Rightarrow> AzureBlobStorageClient" where
  "Azure_initialize newBlobService c blobStorageAccountName blobStorageAccessKey dcn =
     c\<lparr>azureBlobService := Ref (newBlobService blobStorageAccountName blobStorageAccessKey),
       defaultContainerName := dcn\<rparr>"

definition Azure_getDefaultContainerName :: "AzureBlobStorageClient \<Rightarrow> js_string" where
  "Azure_getDefaultContainerName c = defaultContainerName c"

definition Azure_fileExists :: "AzureBlobStorageClient \<Rightarrow> string \<Rightarrow> js_string \<Rightarrow> bool outcome" where
  "Azure_fileExists c blobName containerName =
     (let containerName = js_or containerName (defaultContainerName c) in
      member (azureBlobService c) (\<lambda>svc.
        sdk_call (GetBlobProperties containerName blobName)
          (case getBlobProperties svc containerName blobName of
             Inl error \<Rightarrow> resolve False
           | Inr isSuccessful \<Rightarrow> (if \<not> isSuccessful then resolve False else resolve True))))"

definition Azure_listFilesWithPrefix ::
  "AzureBlobStorageClient \<Rightarrow> js_string \<Rightarrow> js_string \<Rightarrow> string list outcome" where
  "Azure_listFilesWithPrefix c blobNamePrefix containerName =
     (let containerName = js_or containerName (defaultContainerName c) in
      member (azureBlobService c) (\<lambda>svc.
        sdk_call (ListBlobsSegmentedWithPrefix containerName blobNamePrefix)
          (case listBlobsSegmentedWithPrefix svc containerName blobNamePrefix of
             Inr result \<Rightarrow> resolve result
           | Inl error \<Rightarrow> reject error)))"

definition Azure_listFileNamesWithPrefix ::
  "AzureBlobStorageClient \<Rightarrow> js_string \<Rightarrow> js_string \<Rightarrow> string list outcome" where
  "Azure_listFileNamesWithPrefix c blobNamePrefix containerName =
     (let containerName = js_or containerName (defaultContainerName c) in
      try_catch
        (await (Azure_listFilesWithPrefix c blobNamePrefix containerName) (\<lambda>result.
           let fileNames = result in resolve fileNames))
        (\<lambda>errorMessage. reject errorMessage))"

text \<open>
  \<^verbatim>\<open>downloadFile\<close> is not an \<^verbatim>\<open>async\<close> function and throws before it returns a promise:
  \<open>Inl\<close> is that synchronous exception.
\<close>

definition Azure_downloadFile :: "AzureBlobStorageClient \<Rightarrow> string \<Rightarrow> js_string \<Rightarrow> js_error + js_value outcome" where
  "Azure_downloadFile c blobName containerName = Inl (Error ''Method not implemented'')"

definition Azure_downloadFileToDisk ::
  "AzureBlobStorageClient \<Rightarrow> string \<Rightarrow> string \<Rightarrow> js_string \<Rightarrow> unit outcome" where
  "Azure_downloadFileToDisk c blobName localFilePath containerName =
     (let containerName = js_or containerName (defaultContainerName c) in
      member (azureBlobService c) (\<lambda>svc.
        sdk_call (GetBlobToLocalFile containerName blobName localFilePath)
          (case getBlobToLocalFile svc containerName blobName localFilePath of
             Inr result \<Rightarrow> resolve result
           | Inl error \<Rightarrow> reject error)))"

definition Azure_uploadFile ::
  "AzureBlobStorageClient \<Rightarrow> string \<Rightarrow> string \<Rightarrow> js_string \<Rightarrow> unit outcome" where
  "Azure_uploadFile c localFilePath blobName containerName =
     (let containerName = js_or containerName (defaultContainerName c) in
      member (azureBlobService c) (\<lambda>svc.
        sdk_call (CreateBlockBlobFromLocalFile containerName blobName localFilePath)
          (case createBlockBlobFromLocalFile svc containerName blobName localFilePath of
             Inr result \<Rightarrow> resolve result
           | Inl error \<Rightarrow> reject error)))"

text \<open>
  \<^verbatim>\<open>deleteFiles\<close> calls \<^verbatim>\<open>deleteBlob\<close> once per name with the callback \<^verbatim>\<open>function() {}\<close>, so
  the SDK's answer reaches nobody; \<^verbatim>\<open>Promise.all\<close> over the values \<^verbatim>\<open>deleteBlob\<close> returns
  resolves. With no service object the first element of a non-empty list throws inside
  the \<^verbatim>\<open>async\<close> function.
\<close>

definition Azure_deleteFiles ::
  "AzureBlobStorageClient \<Rightarrow> string list \<Rightarrow> js_string \<Rightarrow> unit outcome" where
  "Azure_deleteFiles c blobNames containerName =
     (let containerName = js_or containerName (defaultContainerName c) in
      if blobNames = [] then resolve ()
      else member (azureBlobService c) (\<lambda>svc.
        (Inr (), map (\<lambda>blobName. DeleteBlob containerName blobName) blobNames)))"

definition Azure_deleteFile :: "AzureBlobStorageClient \<Rightarrow> string \<Rightarrow> js_string \<Rightarrow> unit outcome" where
  "Azure_deleteFile c blobName containerName =
     (let containerName = js_or containerName (defaultContainerName c) in
      member (azureBlobService c) (\<lambda>svc.
        sdk_call (DeleteBlob containerName blobName)
          (case deleteBlob svc containerName blobName of
             Some error \<Rightarrow> reject error
           | None \<Rightarrow> resolve ())))"

section \<open>AwsS3Client\<close>

definition DEFAULT_S3_API_VERSION :: string where
  "DEFAULT_S3_API_VERSION = ''2006-03-01''"

record AwsS3Client =
  s3Client :: "S3 js_ref"
  defaultBucketName :: js_string

definition new_AwsS3Client :: AwsS3Client where
  "new_AwsS3Client = \<lparr>s3Client = RefNull, defaultBucketName = Some []\<rparr>"

definition Aws_isInitialized :: "AwsS3Client \<Rightarrow> bool" where
  "Aws_isInitialized c = (case s3Client c of RefUndefined \<Rightarrow> False | RefNull \<Rightarrow> True | Ref s \<Rightarrow> True)"

definition Aws_initialize ::
  "(string \<Rightarrow> js_string \<Rightarrow> string \<Rightarrow> string \<Rightarrow> S3) \<Rightarrow> AwsS3Client \<Rightarrow> string \<Rightarrow> string \<Rightarrow> string
     \<Rightarrow> js_string \<Rightarrow> js_string \<Rightarrow> AwsS3Client" where
  "Aws_initialize newS3 c accessKeyId secretAccessKey region dbn s3ApiVersion =
     (let s3ApiVersion = js_or s3ApiVersion (Some DEFAULT_S3_API_VERSION) in
      c\<lparr>s3Client := Ref (newS3 region s3ApiVersion accessKeyId secretAccessKey),
        defaultBucketName := dbn\<rparr>)"

definition Aws_getDefaultBucketName :: "AwsS3Client \<Rightarrow> js_string" where
  "Aws_getDefaultBucketName c = defaultBucketName c"

definition Aws_fileExists :: "AwsS3Client \<Rightarrow> string \<Rightarrow> js_string \<Rightarrow> bool outcome" where
  "Aws_fileExists c fileKey bucketName =
     (let bucketName = js_or bucketName (defaultBucketName c) in
      member (s3Client c) (\<lambda>s3.
        sdk_call (HeadObject bucketName fileKey)
          (case headObject s3 bucketName fileKey of
             Some error \<Rightarrow> (if code error = Some ERROR_CODE_NOT_FOUND then resolve False else resolve True)
           | None \<Rightarrow> resolve True)))"

definition Aws_listFilesWithPrefix :: "AwsS3Client \<Rightarrow> js_string \<Rightarrow> js_string \<Rightarrow> string list outcome" where
  "Aws_listFilesWithPrefix c storageFileNamePrefix bucketName =
     (let bucketName = js_or bucketName (defaultBucketName c);
          Prefix = (if truthy storageFileNamePrefix then storageFileNamePrefix else None)
      in member (s3Client c) (\<lambda>s3.
           sdk_call (ListObjectsV2 bucketName Prefix)
             (case listObjectsV2 s3 bucketName Prefix of
                Inl error \<Rightarrow> reject error
              | Inr result \<Rightarrow> resolve result)))"

definition Aws_listFileNamesWithPrefix :: "AwsS3Client \<Rightarrow> js_string \<Rightarrow> js_string \<Rightarrow> string list outcome" where
  "Aws_listFileNamesWithPrefix c storageFileNamePrefix bucketName =
     await (Aws_listFilesWithPrefix c storageFileNamePrefix bucketName) (\<lambda>result. resolve result)"

definition Aws_downloadFile :: "AwsS3Client \<Rightarrow> string \<Rightarrow> js_string \<Rightarrow> string outcome" where
  "Aws_downloadFile c fileKey bucketName =
     (let bucketName = js_or bucketName (defaultBucketName c) in
      member (s3Client c) (\<lambda>s3.
        sdk_call (GetObject bucketName fileKey)
          (case getObject s3 bucketName fileKey of
             Inl error \<Rightarrow> reject error
           | Inr output \<Rightarrow> resolve output)))"

text \<open>
  \<^verbatim>\<open>downloadFileToDisk\<close> opens the write stream on the local path first, then pipes the
  object into it; on a read error it unlinks the local path and rejects.
\<close>

definition Aws_downloadFileToDisk :: "AwsS3Client \<Rightarrow> string \<Rightarrow> string \<Rightarrow> js_string \<Rightarrow> unit outcome" where
  "Aws_downloadFileToDisk c fileKey localFilePath bucketName =
     (let bucketName = js_or bucketName (defaultBucketName c) in
      sdk_call (FsCreateWriteStream localFilePath)
        (member (s3Client c) (\<lambda>s3.
           sdk_call (GetObject bucketName fileKey)
             (case getObject s3 bucketName fileKey of
                Inl error \<Rightarrow> sdk_call (FsUnlink localFilePath) (reject error)
              | Inr output \<Rightarrow> resolve ()))))"

definition Aws_uploadFile :: "AwsS3Client \<Rightarrow> string \<Rightarrow> string \<Rightarrow> js_string \<Rightarrow> js_string \<Rightarrow> unit outcome" where
  "Aws_uploadFile c localFilePath fileKey bucketName contentType =
     (let bucketName = js_or bucketName (defaultBucketName c) in
      sdk_call (FsCreateReadStream localFilePath)
        (member (s3Client c) (\<lambda>s3.
           sdk_call (Upload bucketName fileKey localFilePath contentType)
             (case upload s3 bucketName fileKey localFilePath contentType of
                Inl error \<Rightarrow> reject error
              | Inr sendData \<Rightarrow> resolve sendData))))"

text \<open>
  \<^verbatim>\<open>deleteFiles\<close> is not an \<^verbatim>\<open>async\<close> function: with no S3 object it throws before it
  returns a promise (\<open>Inl\<close>).
\<close>

definition Aws_deleteFiles :: "AwsS3Client \<Rightarrow> string list \<Rightarrow> js_string \<Rightarrow> js_error + unit outcome" where
  "Aws_deleteFiles c fileKeys bucketName =
     (let bucketName = js_or bucketName (defaultBucketName c) in
      case s3Client c of
        Ref s3 \<Rightarrow>
          Inr (sdk_call (DeleteObjects bucketName fileKeys)
                 (case deleteObjects s3 bucketName fileKeys of
                    Some error \<Rightarrow> reject error
                  | None \<Rightarrow> resolve ()))
      | RefNull \<Rightarrow> Inl TypeError
      | RefUndefined \<Rightarrow> Inl TypeError)"

section \<open>MultiStorageClient\<close>

text \<open>
  \<^verbatim>\<open>StorageType\<close> is a numeric enum used as a bit set with \<^verbatim>\<open>|\<close> and \<^verbatim>\<open>&\<close>.
\<close>

type_synonym StorageType = int

definition Undefined :: StorageType where
  "Undefined = 0"

definition AzureBlobStorage :: StorageType where
  "AzureBlobStorage = 1"

definition AwsS3 :: StorageType where
  "AwsS3 = 2"

definition Both :: StorageType where
  "Both = 3"

record MultiStorageClient =
  azureBlobStorageClient :: "AzureBlobStorageClient js_ref"
  awsS3Client :: "AwsS3Client js_ref"

definition new_MultiStorageClient :: MultiStorageClient where
  "new_MultiStorageClient = \<lparr>azureBlobStorageClient = RefNull, awsS3Client = RefNull\<rparr>"

text \<open>\<^verbatim>\<open>isInitialized\<close> is synchronous: \<open>Inl\<close> is the exception it throws.\<close>

definition isInitialized :: "MultiStorageClient \<Rightarrow> js_error + bool" where
  "isInitialized c =
     (case azureBlobStorageClient c of
        Ref azure \<Rightarrow>
          (if Azure_isInitialized azure
           then (case awsS3Client c of
                   Ref aws \<Rightarrow> Inr (Aws_isInitialized aws)
                 | RefNull \<Rightarrow> Inl TypeError
                 | RefUndefined \<Rightarrow> Inl TypeError)
           else Inr False)
      | RefNull \<Rightarrow> Inl TypeError
      | RefUndefined \<Rightarrow> Inl TypeError)"

text \<open>The constructors of the two SDK clients, which \<^verbatim>\<open>initialize\<close> calls.\<close>

record sdk =
  newBlobService :: "string \<Rightarrow> string \<Rightarrow> BlobService"
  newS3 :: "string \<Rightarrow> js_string \<Rightarrow> string \<Rightarrow> string \<Rightarrow> S3"

definition initialize ::
  "sdk \<Rightarrow> MultiStorageClient \<Rightarrow> string \<Rightarrow> string \<Rightarrow> string \<Rightarrow> string \<Rightarrow> string \<Rightarrow> js_string \<Rightarrow> js_string
     \<Rightarrow> MultiStorageClient" where
  "initialize lib c azureBlobStorageAccountName azureBlobStorageAccessKey awsS3AccessKeyId
     awsS3SecretAccessKey awsS3Region defaultAzureBlobStorageContainerName defaultAwsS3BucketName =
     c\<lparr>azureBlobStorageClient :=
         Ref (Azure_initialize (newBlobService lib) new_AzureBlobStorageClient
                azureBlobStorageAccountName azureBlobStorageAccessKey
                defaultAzureBlobStorageContainerName),
       awsS3Client :=
         Ref (Aws_initialize (newS3 lib) new_AwsS3Client awsS3AccessKeyId awsS3SecretAccessKey
                awsS3Region defaultAwsS3BucketName None)\<rparr>"

text \<open>
  \<^verbatim>\<open>a || this.adapter.getDefault...()\<close> evaluates its right operand, and with it the member
  access on the adapter field, only when \<open>a\<close> is falsy.
\<close>

definition or_else :: "js_string \<Rightarrow> js_string outcome \<Rightarrow> js_string outcome" where
  "or_else a d = (if truthy a then resolve a else d)"

definition resolveContainerName :: "MultiStorageClient \<Rightarrow> js_string \<Rightarrow> js_string outcome" where
  "resolveContainerName c containerName =
     or_else containerName
       (member (azureBlobStorageClient c) (\<lambda>azure. resolve (Azure_getDefaultContainerName azure)))"

definition resolveBucketName :: "MultiStorageClient \<Rightarrow> js_string \<Rightarrow> js_string \<Rightarrow> js_string outcome" where
  "resolveBucketName c bucketName containerName =
     or_else bucketName
       (member (awsS3Client c) (\<lambda>aws.
          resolve (js_or (Aws_getDefaultBucketName aws) containerName)))"

text \<open>
  A promise that has been created but not yet awaited: its calls are issued when it is
  created, its settlement is read by the later \<^verbatim>\<open>await\<close>. Calling a method that is not
  \<^verbatim>\<open>async\<close> can also throw before any promise exists.
\<close>

definition start :: "'a outcome \<Rightarrow> (js_error + 'a) outcome" where
  "start m = (case m of (r, t) \<Rightarrow> (Inr r, t))"

definition settled :: "js_error + 'a \<Rightarrow> 'a outcome" where
  "settled r = (r, [])"

definition invoke :: "js_error + 'a outcome \<Rightarrow> 'a outcome" where
  "invoke r = (case r of Inl e \<Rightarrow> reject e | Inr m \<Rightarrow> m)"

definition storagesContainingFile ::
  "MultiStorageClient \<Rightarrow> string \<Rightarrow> js_string \<Rightarrow> js_string \<Rightarrow> StorageType outcome" where
  "storagesContainingFile c storageFilePath containerName bucketName =
     await (resolveContainerName c containerName) (\<lambda>containerName.
     await (resolveBucketName c bucketName containerName) (\<lambda>bucketName.
     let result = Undefined in
     await (member (azureBlobStorageClient c) (\<lambda>azure.
              Azure_fileExists azure storageFilePath containerName)) (\<lambda>fileExistsBlob.
     await (member (awsS3Client c) (\<lambda>aws.
              Aws_fileExists aws storageFilePath bucketName)) (\<lambda>fileExistsAws.
     let result = (if fileExistsBlob then result OR AzureBlobStorage else result);
         result = (if fileExistsAws then result OR AwsS3 else result)
     in resolve result))))"

definition fileExists :: "MultiStorageClient \<Rightarrow> string \<Rightarrow> js_string \<Rightarrow> js_string \<Rightarrow> bool outcome" where
  "fileExists c storageFilePath containerName bucketName =
     await (storagesContainingFile c storageFilePath containerName bucketName) (\<lambda>s.
       resolve (s \<noteq> Undefined))"

text \<open>
  \<^verbatim>\<open>listFilesWithPrefix\<close> returns the pair of listings; the Azure one is \<^verbatim>\<open>null\<close> (\<open>None\<close>)
  when its listing failed.
\<close>

definition listFilesWithPrefix ::
  "MultiStorageClient \<Rightarrow> js_string \<Rightarrow> js_string \<Rightarrow> js_string
     \<Rightarrow> (string list option \<times> string list) outcome" where
  "listFilesWithPrefix c storageFileNamePrefix containerName bucketName =
     await (resolveContainerName c containerName) (\<lambda>containerName.
     await (resolveBucketName c bucketName containerName) (\<lambda>bucketName.
     let blobsFoundInAzureBlobStorage = None in
     await (try_catch
              (await (member (azureBlobStorageClient c) (\<lambda>azure.
                        Azure_listFilesWithPrefix azure storageFileNamePrefix containerName))
                 (\<lambda>found. resolve (Some found)))
              (\<lambda>error. resolve blobsFoundInAzureBlobStorage)) (\<lambda>blobsFoundInAzureBlobStorage.
     await (member (awsS3Client c) (\<lambda>aws.
              Aws_listFilesWithPrefix aws storageFileNamePrefix bucketName)) (\<lambda>filesFoundInS3.
     resolve (blobsFoundInAzureBlobStorage, filesFoundInS3)))))"

text \<open>
  In \<^verbatim>\<open>listFileNamesWithPrefix\<close> the source calls \<^verbatim>\<open>fileNames.concat(...)\<close> as a statement:
  \<^verbatim>\<open>concat\<close> builds a new array and leaves \<open>fileNames\<close> as it was.
\<close>

definition listFileNamesWithPrefix ::
  "MultiStorageClient \<Rightarrow> js_string \<Rightarrow> js_string \<Rightarrow> js_string \<Rightarrow> string list outcome" where
  "listFileNamesWithPrefix c storageFileNamePrefix containerName bucketName =
     await (resolveContainerName c containerName) (\<lambda>containerName.
     await (resolveBucketName c bucketName containerName) (\<lambda>bucketName.
     let fileNames = [] in
     await (try_catch
              (member (azureBlobStorageClient c) (\<lambda>azure.
                 Azure_listFileNamesWithPrefix azure storageFileNamePrefix containerName))
              (\<lambda>error. resolve fileNames)) (\<lambda>fileNames.
     await (member (awsS3Client c) (\<lambda>aws.
              Aws_listFileNamesWithPrefix aws storageFileNamePrefix bucketName)) (\<lambda>namesInS3.
     let concatenated = fileNames @ namesInS3 in
     resolve fileNames))))"

definition downloadFileToDiskAndReplicateIfNecessary ::
  "MultiStorageClient \<Rightarrow> string \<Rightarrow> string \<Rightarrow> js_string \<Rightarrow> js_string \<Rightarrow> js_value outcome" where
  "downloadFileToDiskAndReplicateIfNecessary c storageFilePath localFilePath containerName bucketName =
     await (resolveContainerName c containerName) (\<lambda>containerName.
     await (resolveBucketName c bucketName containerName) (\<lambda>bucketName.
     await (storagesContainingFile c storageFilePath containerName bucketName) (\<lambda>storages.
     let result = JsNull in
     try_catch
       (if storages = Undefined then resolve (JsString ERROR_CODE_NOT_FOUND)
        else if storages = (AzureBlobStorage OR AwsS3) then
          await (member (azureBlobStorageClient c) (\<lambda>azure.
                   Azure_downloadFileToDisk azure storageFilePath localFilePath containerName))
            (\<lambda>u. resolve result)
        else if storages = AzureBlobStorage then
          await (member (azureBlobStorageClient c) (\<lambda>azure.
                   Azure_downloadFileToDisk azure storageFilePath localFilePath containerName))
            (\<lambda>u.
          await (member (awsS3Client c) (\<lambda>aws.
                   Aws_uploadFile aws localFilePath storageFilePath bucketName None))
            (\<lambda>u. resolve result))
        else if storages = AwsS3 then
          await (member (awsS3Client c) (\<lambda>aws.
                   Aws_downloadFileToDisk aws storageFilePath localFilePath bucketName))
            (\<lambda>u.
          await (member (azureBlobStorageClient c) (\<lambda>azure.
                   Azure_uploadFile azure localFilePath storageFilePath containerName))
            (\<lambda>u. resolve result))
        else resolve result)
       (\<lambda>error. resolve (JsError error)))))"

definition downloadFile ::
  "MultiStorageClient \<Rightarrow> string \<Rightarrow> js_string \<Rightarrow> js_string \<Rightarrow> js_value outcome" where
  "downloadFile c storageFilePath containerName bucketName =
     await (resolveContainerName c containerName) (\<lambda>containerName.
     await (resolveBucketName c bucketName containerName) (\<lambda>bucketName.
     await (storagesContainingFile c storageFilePath containerName bucketName) (\<lambda>storages.
     let result = JsNull in
     try_catch
       (if storages = Undefined then resolve (JsString ERROR_CODE_NOT_FOUND)
        else if storages AND AzureBlobStorage \<noteq> 0 then
          member (azureBlobStorageClient c) (\<lambda>azure.
            invoke (Azure_downloadFile azure storageFilePath containerName))
        else if storages AND AwsS3 \<noteq> 0 then
          await (member (awsS3Client c) (\<lambda>aws.
                   Aws_downloadFile aws storageFilePath bucketName))
            (\<lambda>output. resolve (JsPayload output))
        else resolve result)
       (\<lambda>error. resolve (JsError error)))))"

definition downloadFileToDisk ::
  "MultiStorageClient \<Rightarrow> string \<Rightarrow> string \<Rightarrow> js_string \<Rightarrow> js_string \<Rightarrow> js_value outcome" where
  "downloadFileToDisk c storageFilePath localFilePath containerName bucketName =
     await (resolveContainerName c containerName) (\<lambda>containerName.
     await (resolveBucketName c bucketName containerName) (\<lambda>bucketName.
     await (storagesContainingFile c storageFilePath containerName bucketName) (\<lambda>storages.
     let result = JsNull in
     try_catch
       (if storages = Undefined then resolve (JsString ERROR_CODE_NOT_FOUND)
        else if storages AND AzureBlobStorage \<noteq> 0 then
          await (member (azureBlobStorageClient c) (\<lambda>azure.
                   Azure_downloadFileToDisk azure storageFilePath localFilePath containerName))
            (\<lambda>u. resolve result)
        else if storages AND AwsS3 \<noteq> 0 then
          await (member (awsS3Client c) (\<lambda>aws.
                   Aws_downloadFileToDisk aws storageFilePath localFilePath bucketName))
            (\<lambda>u. resolve result)
        else resolve result)
       (\<lambda>error. resolve (JsError error)))))"

text \<open>
  \<^verbatim>\<open>uploadFileToStorage\<close> creates the promise of every targeted storage first and awaits
  them afterwards, each inside its own \<^verbatim>\<open>try\<close>. \<^verbatim>\<open>storageToUse\<close> is optional; \<^verbatim>\<open>undefined\<close>
  and \<open>0\<close> are both falsy.
\<close>

definition uploadFileToStorage ::
  "MultiStorageClient \<Rightarrow> string \<Rightarrow> string \<Rightarrow> StorageType option \<Rightarrow> js_string \<Rightarrow> js_string \<Rightarrow> js_string
     \<Rightarrow> StorageType outcome" where
  "uploadFileToStorage c localFilePath storageFilePath storageToUse containerName bucketName contentType =
     (let storageToUse =
            (case storageToUse of
               None \<Rightarrow> AzureBlobStorage OR AwsS3
             | Some s \<Rightarrow> if s = 0 then AzureBlobStorage OR AwsS3 else s)
      in
      await (resolveContainerName c containerName) (\<lambda>containerName.
      await (resolveBucketName c bucketName containerName) (\<lambda>bucketName.
      let storagesWhereFileWasUploaded = Undefined in
      await (if storageToUse AND AzureBlobStorage \<noteq> 0
             then member (azureBlobStorageClient c) (\<lambda>azure.
                    start (Azure_uploadFile azure localFilePath storageFilePath containerName))
             else resolve (Inr ())) (\<lambda>azurePromise.
      await (if storageToUse AND AwsS3 \<noteq> 0
             then member (awsS3Client c) (\<lambda>aws.
                    start (Aws_uploadFile aws localFilePath storageFilePath bucketName contentType))
             else resolve (Inr ())) (\<lambda>awsPromise.
      await (if storageToUse AND AzureBlobStorage \<noteq> 0
             then try_catch
                    (await (settled azurePromise) (\<lambda>u.
                       resolve (storagesWhereFileWasUploaded OR AzureBlobStorage)))
                    (\<lambda>error. resolve storagesWhereFileWasUploaded)
             else resolve storagesWhereFileWasUploaded) (\<lambda>storagesWhereFileWasUploaded.
      await (if storageToUse AND AwsS3 \<noteq> 0
             then try_catch
                    (await (settled awsPromise) (\<lambda>u.
                       resolve (storagesWhereFileWasUploaded OR AwsS3)))
                    (\<lambda>error. resolve storagesWhereFileWasUploaded)
             else resolve storagesWhereFileWasUploaded) (\<lambda>storagesWhereFileWasUploaded.
      resolve storagesWhereFileWasUploaded)))))))"

definition deleteFiles ::
  "MultiStorageClient \<Rightarrow> string list \<Rightarrow> js_string \<Rightarrow> js_string \<Rightarrow> js_value outcome" where
  "deleteFiles c filePaths containerName bucketName =
     await (resolveContainerName c containerName) (\<lambda>containerName.
     await (resolveBucketName c bucketName containerName) (\<lambda>bucketName.
     let result = JsNull in
     await (member (azureBlobStorageClient c) (\<lambda>azure.
              start (Azure_deleteFiles azure filePaths containerName))) (\<lambda>azurePromise.
     await (member (awsS3Client c) (\<lambda>aws.
              (case Aws_deleteFiles aws filePaths bucketName of
                 Inl thrown \<Rightarrow> reject thrown
               | Inr promise \<Rightarrow> start promise))) (\<lambda>awsPromise.
     await (try_catch (await (settled azurePromise) (\<lambda>u. resolve result))
              (\<lambda>error. resolve (JsError error))) (\<lambda>result.
     await (try_catch (await (settled awsPromise) (\<lambda>u. resolve result))
              (\<lambda>error. resolve (JsError error))) (\<lambda>result.
     resolve result))))))"

definition deleteFile ::
  "MultiStorageClient \<Rightarrow> string \<Rightarrow> js_string \<Rightarrow> js_string \<Rightarrow> js_value outcome" where
  "deleteFile c filePath containerName bucketName =
     (let filePaths = [filePath] in deleteFiles c filePaths containerName bucketName)"

section \<open>Vocabulary of the properties\<close>

text \<open>A client whose two adapters exist and hold their SDK objects, as after \<^verbatim>\<open>initialize\<close>.\<close>

definition connected ::
  "MultiStorageClient \<Rightarrow> AzureBlobStorageClient \<Rightarrow> BlobService \<Rightarrow> AwsS3Client \<Rightarrow> S3 \<Rightarrow> bool" where
  "connected c azure svc aws s3 =
     (azureBlobStorageClient c = Ref azure \<and> azureBlobService azure = Ref svc \<and>
      awsS3Client c = Ref aws \<and> s3Client aws = Ref s3)"

text \<open>
  The container and the bucket that reach the SDKs for given scope arguments: the multi
  storage client resolves them once and each adapter applies its own default again.
\<close>

definition effectiveContainerName :: "AzureBlobStorageClient \<Rightarrow> js_string \<Rightarrow> js_string" where
  "effectiveContainerName azure containerName = js_or containerName (defaultContainerName azure)"

definition effectiveBucketName ::
  "AzureBlobStorageClient \<Rightarrow> AwsS3Client \<Rightarrow> js_string \<Rightarrow> js_string \<Rightarrow> js_string" where
  "effectiveBucketName azure aws containerName bucketName =
     js_or (js_or (js_or bucketName (defaultBucketName aws)) (effectiveContainerName azure containerName))
       (defaultBucketName aws)"

text \<open>What the two presence probes make of the SDK's answer.\<close>

definition blobFound :: "BlobService \<Rightarrow> js_string \<Rightarrow> string \<Rightarrow> bool" where
  "blobFound svc container blobName = (getBlobProperties svc container blobName = Inr True)"

definition objectFound :: "S3 \<Rightarrow> js_string \<Rightarrow> string \<Rightarrow> bool" where
  "objectFound s3 bucket fileKey =
     (case headObject s3 bucket fileKey of
        None \<Rightarrow> True
      | Some error \<Rightarrow> code error \<noteq> Some ERROR_CODE_NOT_FOUND)"

definition locationSet :: "bool \<Rightarrow> bool \<Rightarrow> StorageType" where
  "locationSet inAzure inS3 =
     (if inAzure then (if inS3 then Both else AzureBlobStorage)
      else (if inS3 then AwsS3 else Undefined))"

subsection \<open>A concrete pair of backends\<close>

text \<open>
  Azure holds \<open>a.jpg\<close> and \<open>ab.jpg\<close>, S3 holds \<open>b.jpg\<close> and \<open>ab.jpg\<close>. The Azure probe
  of \<open>down.jpg\<close> is refused, S3 refuses to store \<open>s3fail.jpg\<close> and to list the prefix
  \<open>s3down\<close>, Azure refuses to list the prefix \<open>azdown\<close> and to delete \<open>locked.jpg\<close>.
\<close>

definition exampleBlobService :: BlobService where
  "exampleBlobService =
     \<lparr>getBlobProperties = (\<lambda>container blob.
         if blob = ''a.jpg'' \<or> blob = ''ab.jpg'' then Inr True
         else if blob = ''down.jpg'' then Inl (SdkError ''AuthenticationFailed'')
         else Inl (SdkError ''NotFound'')),
      listBlobsSegmentedWithPrefix = (\<lambda>container prefix.
         if prefix = Some ''azdown'' then Inl (SdkError ''ServerBusy'')
         else Inr [''a.jpg'', ''ab.jpg'']),
      getBlobToLocalFile = (\<lambda>container blob localPath.
         if blob = ''a.jpg'' \<or> blob = ''ab.jpg'' then Inr () else Inl (SdkError ''NotFound'')),
      createBlockBlobFromLocalFile = (\<lambda>container blob localPath. Inr ()),
      deleteBlob = (\<lambda>container blob.
         if blob = ''locked.jpg'' then Some (SdkError ''LeaseIdMissing'') else None)\<rparr>"

definition exampleS3 :: S3 where
  "exampleS3 =
     \<lparr>headObject = (\<lambda>bucket key.
         if key = ''b.jpg'' \<or> key = ''ab.jpg'' then None else Some (SdkError ''NotFound'')),
      listObjectsV2 = (\<lambda>bucket prefix.
         if prefix = Some ''s3down'' then Inl (SdkError ''SlowDown'')
         else Inr [''b.jpg'', ''ab.jpg'']),
      getObject = (\<lambda>bucket key.
         if key = ''b.jpg'' \<or> key = ''ab.jpg'' then Inr ''bytes'' else Inl (SdkError ''NoSuchKey'')),
      upload = (\<lambda>bucket key localPath contentType.
         if key = ''s3fail.jpg'' then Inl (SdkError ''AccessDenied'') else Inr ()),
      deleteObjects = (\<lambda>bucket keys. None)\<rparr>"

definition exampleSdk :: sdk where
  "exampleSdk =
     \<lparr>newBlobService = (\<lambda>account accessKey. exampleBlobService),
      newS3 = (\<lambda>region apiVersion accessKeyId secretAccessKey. exampleS3)\<rparr>"

definition exampleAzure :: AzureBlobStorageClient where
  "exampleAzure = Azure_initialize (newBlobService exampleSdk) new_AzureBlobStorageClient
     ''account'' ''key'' (Some ''media'')"

definition exampleAws :: AwsS3Client where
  "exampleAws = Aws_initialize (newS3 exampleSdk) new_AwsS3Client
     ''id'' ''secret'' ''eu-west-2'' None None"

definition exampleClient :: MultiStorageClient where
  "exampleClient = initialize exampleSdk new_MultiStorageClient
     ''account'' ''key'' ''id'' ''secret'' ''eu-west-2'' (Some ''media'') None"

text \<open>The calls that create or overwrite the local destination file.\<close>

definition createsLocalFile :: "effect \<Rightarrow> bool" where
  "createsLocalFile e =
     (case e of
        GetBlobToLocalFile container blob localPath \<Rightarrow> True
      | FsCreateWriteStream localPath \<Rightarrow> True
      | _ \<Rightarrow> False)"

text \<open>
  A second client over the same backends, initialized with a default bucket name and no
  default container name.
\<close>

definition archiveClient :: MultiStorageClient where
  "archiveClient = initialize exampleSdk new_MultiStorageClient
     ''account'' ''key'' ''id'' ''secret'' ''eu-west-2'' None (Some ''archive'')"

definition archiveAzure :: AzureBlobStorageClient where
  "archiveAzure = Azure_initialize (newBlobService exampleSdk) new_AzureBlobStorageClient
     ''account'' ''key'' None"

definition archiveAws :: AwsS3Client where
  "archiveAws = Aws_initialize (newS3 exampleSdk) new_AwsS3Client
     ''id'' ''secret'' ''eu-west-2'' (Some ''archive'') None"

section \<open>Basic facts\<close>

lemma js_or_absorb: "js_or (js_or a b) b = js_or a b"
  by (simp add: js_or_def)

lemma await_resolve: "await (resolve x) f = f x"
  by (cases "f x") (simp add: await_def resolve_def)

lemma await_pair: "await (Inr x, t) f = (fst (f x), t @ snd (f x))"
  by (simp add: await_def split: prod.splits)

lemma await_fail: "await (Inl e, t) f = (Inl e, t)"
  by (simp add: await_def)

lemma connected_fields:
  assumes "connected c azure svc aws s3"
  shows "azureBlobStorageClient c = Ref azure" and "awsS3Client c = Ref aws"
    and "azureBlobService azure = Ref svc" and "s3Client aws = Ref s3"
  using assms by (simp_all add: connected_def)

text \<open>\<^verbatim>\<open>initialize\<close> puts both adapters in place, each with its SDK object.\<close>

lemma initialize_connected:
  "connected
     (initialize lib c account accessKey accessKeyId secretAccessKey region dcn dbn)
     (Azure_initialize (newBlobService lib) new_AzureBlobStorageClient account accessKey dcn)
     (newBlobService lib account accessKey)
     (Aws_initialize (newS3 lib) new_AwsS3Client accessKeyId secretAccessKey region dbn None)
     (newS3 lib region (Some DEFAULT_S3_API_VERSION) accessKeyId secretAccessKey)"
  by (simp add: connected_def initialize_def Azure_initialize_def Aws_initialize_def Let_def
      js_or_def truthy_def)

lemma exampleClient_connected:
  "connected exampleClient exampleAzure exampleBlobService exampleAws exampleS3"
  by (simp add: connected_def exampleClient_def exampleAzure_def exampleAws_def initialize_def
      Azure_initialize_def Aws_initialize_def exampleSdk_def Let_def)

lemma example_defaults:
  "defaultContainerName exampleAzure = Some ''media''" "defaultBucketName exampleAws = None"
  by (simp_all add: exampleAzure_def exampleAws_def Azure_initialize_def Aws_initialize_def Let_def)

lemma example_scopes:
  "effectiveContainerName exampleAzure None = Some ''media''"
  "effectiveBucketName exampleAzure exampleAws None None = Some ''media''"
  by (simp_all add: effectiveContainerName_def effectiveBucketName_def example_defaults
      js_or_def truthy_def)

lemma resolveContainerName_connected:
  assumes "connected c azure svc aws s3"
  shows "resolveContainerName c cn = resolve (effectiveContainerName azure cn)"
  using assms
  by (simp add: connected_def resolveContainerName_def or_else_def member_def
      Azure_getDefaultContainerName_def effectiveContainerName_def js_or_def)

lemma resolveBucketName_connected:
  assumes "connected c azure svc aws s3"
  shows "resolveBucketName c bn cn' = resolve (js_or (js_or bn (defaultBucketName aws)) cn')"
  using assms
  by (simp add: connected_def resolveBucketName_def or_else_def member_def
      Aws_getDefaultBucketName_def js_or_def)

lemma Azure_fileExists_connected:
  assumes "azureBlobService azure = Ref svc"
  shows "Azure_fileExists azure p cn =
     (Inr (blobFound svc (effectiveContainerName azure cn) p),
      [GetBlobProperties (effectiveContainerName azure cn) p])"
  using assms
  by (simp add: Azure_fileExists_def member_def sdk_call_def resolve_def blobFound_def
      effectiveContainerName_def Let_def split: sum.splits)

lemma Aws_fileExists_connected:
  assumes "s3Client aws = Ref s3"
  shows "Aws_fileExists aws p bn =
     (Inr (objectFound s3 (js_or bn (defaultBucketName aws)) p),
      [HeadObject (js_or bn (defaultBucketName aws)) p])"
  using assms
  by (simp add: Aws_fileExists_def member_def sdk_call_def resolve_def objectFound_def
      Let_def split: option.splits)

lemma effectiveContainerName_idem:
  "effectiveContainerName azure (effectiveContainerName azure cn) = effectiveContainerName azure cn"
  by (simp add: effectiveContainerName_def js_or_absorb)

lemma effectiveBucketName_idem:
  "effectiveBucketName azure aws (effectiveContainerName azure cn)
     (js_or (js_or bn (defaultBucketName aws)) (effectiveContainerName azure cn))
     = effectiveBucketName azure aws cn bn"
  by (simp add: effectiveBucketName_def effectiveContainerName_def js_or_def)

lemma storagesContainingFile_connected:
  assumes "connected c azure svc aws s3"
  shows "storagesContainingFile c p cn bn =
     (Inr (locationSet (blobFound svc (effectiveContainerName azure cn) p)
                       (objectFound s3 (effectiveBucketName azure aws cn bn) p)),
      [GetBlobProperties (effectiveContainerName azure cn) p,
       HeadObject (effectiveBucketName azure aws cn bn) p])"
proof -
  note a = connected_fields[OF assms]
  show ?thesis
    unfolding storagesContainingFile_def
    by (simp add: resolveContainerName_connected[OF assms] resolveBucketName_connected[OF assms]
        await_resolve a member_def Azure_fileExists_connected[OF a(3)]
        Aws_fileExists_connected[OF a(4)] await_pair Let_def resolve_def
        effectiveContainerName_idem effectiveBucketName_def locationSet_def
        Undefined_def AzureBlobStorage_def AwsS3_def Both_def)
qed

lemma storagesContainingFile_resolved:
  assumes "connected c azure svc aws s3"
  shows "storagesContainingFile c p (effectiveContainerName azure cn)
           (js_or (js_or bn (defaultBucketName aws)) (effectiveContainerName azure cn))
         = storagesContainingFile c p cn bn"
  by (simp add: storagesContainingFile_connected[OF assms] effectiveContainerName_idem
      effectiveBucketName_idem)

lemma try_catch_ok: "try_catch (Inr x, t) h = (Inr x, t)"
  by (simp add: try_catch_def)

lemma try_catch_fail: "try_catch (Inl e, t) h = (fst (h e), t @ snd (h e))"
  by (simp add: try_catch_def split: prod.splits)

lemma storage_types_distinct:
  "AzureBlobStorage \<noteq> Undefined" "AwsS3 \<noteq> Undefined" "Both \<noteq> Undefined"
  "AzureBlobStorage \<noteq> AwsS3" "AzureBlobStorage \<noteq> Both" "AwsS3 \<noteq> Both"
  "Undefined \<noteq> AzureBlobStorage" "Undefined \<noteq> AwsS3" "Undefined \<noteq> Both"
  "AwsS3 \<noteq> AzureBlobStorage" "Both \<noteq> AzureBlobStorage" "Both \<noteq> AwsS3"
  "AzureBlobStorage OR AwsS3 = Both"
  by (simp_all add: Undefined_def AzureBlobStorage_def AwsS3_def Both_def)

lemma storagesContainingFile_located:
  assumes "connected c azure svc aws s3"
    and "fst (storagesContainingFile c p cn bn) = Inr s"
  shows "storagesContainingFile c p cn bn =
     (Inr s, [GetBlobProperties (effectiveContainerName azure cn) p,
              HeadObject (effectiveBucketName azure aws cn bn) p])"
  using assms(2) by (simp add: storagesContainingFile_connected[OF assms(1)])

lemma Azure_downloadFileToDisk_connected:
  assumes "azureBlobService azure = Ref svc"
  shows "Azure_downloadFileToDisk azure p l cn =
     (getBlobToLocalFile svc (effectiveContainerName azure cn) p l,
      [GetBlobToLocalFile (effectiveContainerName azure cn) p l])"
  using assms
  by (simp add: Azure_downloadFileToDisk_def member_def sdk_call_def resolve_def reject_def
      effectiveContainerName_def Let_def split: sum.splits)

lemma Azure_uploadFile_connected:
  assumes "azureBlobService azure = Ref svc"
  shows "Azure_uploadFile azure l p cn =
     (createBlockBlobFromLocalFile svc (effectiveContainerName azure cn) p l,
      [CreateBlockBlobFromLocalFile (effectiveContainerName azure cn) p l])"
  using assms
  by (simp add: Azure_uploadFile_def member_def sdk_call_def resolve_def reject_def
      effectiveContainerName_def Let_def split: sum.splits)

lemma Aws_uploadFile_connected:
  assumes "s3Client aws = Ref s3"
  shows "Aws_uploadFile aws l p bn ct =
     (upload s3 (js_or bn (defaultBucketName aws)) p l ct,
      [FsCreateReadStream l, Upload (js_or bn (defaultBucketName aws)) p l ct])"
  using assms
  by (simp add: Aws_uploadFile_def member_def sdk_call_def resolve_def reject_def
      Let_def split: sum.splits)

lemma Aws_downloadFileToDisk_connected:
  assumes "s3Client aws = Ref s3"
  shows "Aws_downloadFileToDisk aws p l bn =
     (case getObject s3 (js_or bn (defaultBucketName aws)) p of
        Inl error \<Rightarrow>
          (Inl error, [FsCreateWriteStream l, GetObject (js_or bn (defaultBucketName aws)) p, FsUnlink l])
      | Inr output \<Rightarrow>
          (Inr (), [FsCreateWriteStream l, GetObject (js_or bn (defaultBucketName aws)) p]))"
  using assms
  by (simp add: Aws_downloadFileToDisk_def member_def sdk_call_def resolve_def reject_def
      Let_def split: sum.splits)

lemma Aws_downloadFile_connected:
  assumes "s3Client aws = Ref s3"
  shows "Aws_downloadFile aws p bn =
     (getObject s3 (js_or bn (defaultBucketName aws)) p,
      [GetObject (js_or bn (defaultBucketName aws)) p])"
  using assms
  by (simp add: Aws_downloadFile_def member_def sdk_call_def resolve_def reject_def
      Let_def split: sum.splits)

text \<open>
  With both adapters in place the three download methods are the presence check followed
  by a choice on its result, with the scopes already resolved.
\<close>

lemma downloadFileToDiskAndReplicateIfNecessary_connected:
  assumes conn: "connected c azure svc aws s3"
  shows "downloadFileToDiskAndReplicateIfNecessary c p l cn bn =
     await (storagesContainingFile c p cn bn) (\<lambda>storages.
     try_catch
       (if storages = Undefined then resolve (JsString ERROR_CODE_NOT_FOUND)
        else if storages = Both then
          await (Azure_downloadFileToDisk azure p l (effectiveContainerName azure cn))
            (\<lambda>u. resolve JsNull)
        else if storages = AzureBlobStorage then
          await (Azure_downloadFileToDisk azure p l (effectiveContainerName azure cn)) (\<lambda>u.
          await (Aws_uploadFile aws l p
                   (js_or (js_or bn (defaultBucketName aws)) (effectiveContainerName azure cn)) None)
            (\<lambda>u. resolve JsNull))
        else if storages = AwsS3 then
          await (Aws_downloadFileToDisk aws p l
                   (js_or (js_or bn (defaultBucketName aws)) (effectiveContainerName azure cn))) (\<lambda>u.
          await (Azure_uploadFile azure l p (effectiveContainerName azure cn)) (\<lambda>u. resolve JsNull))
        else resolve JsNull)
       (\<lambda>error. resolve (JsError error)))"
  by (simp add: downloadFileToDiskAndReplicateIfNecessary_def
      resolveContainerName_connected[OF conn] resolveBucketName_connected[OF conn]
      await_resolve storagesContainingFile_resolved[OF conn] connected_fields[OF conn] member_def
      storage_types_distinct cong: if_cong)

lemma downloadFile_connected:
  assumes conn: "connected c azure svc aws s3"
  shows "downloadFile c p cn bn =
     await (storagesContainingFile c p cn bn) (\<lambda>storages.
     try_catch
       (if storages = Undefined then resolve (JsString ERROR_CODE_NOT_FOUND)
        else if storages AND AzureBlobStorage \<noteq> 0 then
          invoke (Azure_downloadFile azure p (effectiveContainerName azure cn))
        else if storages AND AwsS3 \<noteq> 0 then
          await (Aws_downloadFile aws p
                   (js_or (js_or bn (defaultBucketName aws)) (effectiveContainerName azure cn)))
            (\<lambda>output. resolve (JsPayload output))
        else resolve JsNull)
       (\<lambda>error. resolve (JsError error)))"
  by (simp add: downloadFile_def
      resolveContainerName_connected[OF conn] resolveBucketName_connected[OF conn]
      await_resolve storagesContainingFile_resolved[OF conn] connected_fields[OF conn] member_def
      cong: if_cong)

lemma downloadFileToDisk_connected:
  assumes conn: "connected c azure svc aws s3"
  shows "downloadFileToDisk c p l cn bn =
     await (storagesContainingFile c p cn bn) (\<lambda>storages.
     try_catch
       (if storages = Undefined then resolve (JsString ERROR_CODE_NOT_FOUND)
        else if storages AND AzureBlobStorage \<noteq> 0 then
          await (Azure_downloadFileToDisk azure p l (effectiveContainerName azure cn))
            (\<lambda>u. resolve JsNull)
        else if storages AND AwsS3 \<noteq> 0 then
          await (Aws_downloadFileToDisk aws p l
                   (js_or (js_or bn (defaultBucketName aws)) (effectiveContainerName azure cn)))
            (\<lambda>u. resolve JsNull)
        else resolve JsNull)
       (\<lambda>error. resolve (JsError error)))"
  by (simp add: downloadFileToDisk_def
      resolveContainerName_connected[OF conn] resolveBucketName_connected[OF conn]
      await_resolve storagesContainingFile_resolved[OF conn] connected_fields[OF conn] member_def
      cong: if_cong)

lemma effectiveBucketName_adapter:
  "js_or (js_or (js_or bn (defaultBucketName aws)) (effectiveContainerName azure cn))
     (defaultBucketName aws) = effectiveBucketName azure aws cn bn"
  by (simp add: effectiveBucketName_def)

subsection \<open>The concrete backends\<close>

lemma example_answers:
  "getBlobProperties exampleBlobService cn ''a.jpg'' = Inr True"
  "getBlobProperties exampleBlobService cn ''ab.jpg'' = Inr True"
  "getBlobProperties exampleBlobService cn ''b.jpg'' = Inl (SdkError ''NotFound'')"
  "getBlobProperties exampleBlobService cn ''none.jpg'' = Inl (SdkError ''NotFound'')"
  "getBlobProperties exampleBlobService cn ''down.jpg'' = Inl (SdkError ''AuthenticationFailed'')"
  "headObject exampleS3 bn ''a.jpg'' = Some (SdkError ''NotFound'')"
  "headObject exampleS3 bn ''ab.jpg'' = None"
  "headObject exampleS3 bn ''b.jpg'' = None"
  "headObject exampleS3 bn ''none.jpg'' = Some (SdkError ''NotFound'')"
  "headObject exampleS3 bn ''down.jpg'' = Some (SdkError ''NotFound'')"
  "getBlobToLocalFile exampleBlobService cn ''a.jpg'' l = Inr ()"
  "getBlobToLocalFile exampleBlobService cn ''ab.jpg'' l = Inr ()"
  "getObject exampleS3 bn ''b.jpg'' = Inr ''bytes''"
  "createBlockBlobFromLocalFile exampleBlobService cn k l = Inr ()"
  "upload exampleS3 bn ''a.jpg'' l ct = Inr ()"
  "upload exampleS3 bn ''s3fail.jpg'' l ct = Inl (SdkError ''AccessDenied'')"
  by (simp_all add: exampleBlobService_def exampleS3_def)

lemma example_located:
  "storagesContainingFile exampleClient ''a.jpg'' None None =
     (Inr AzureBlobStorage, [GetBlobProperties (Some ''media'') ''a.jpg'', HeadObject (Some ''media'') ''a.jpg''])"
  "storagesContainingFile exampleClient ''b.jpg'' None None =
     (Inr AwsS3, [GetBlobProperties (Some ''media'') ''b.jpg'', HeadObject (Some ''media'') ''b.jpg''])"
  "storagesContainingFile exampleClient ''ab.jpg'' None None =
     (Inr Both, [GetBlobProperties (Some ''media'') ''ab.jpg'', HeadObject (Some ''media'') ''ab.jpg''])"
  "storagesContainingFile exampleClient ''none.jpg'' None None =
     (Inr Undefined, [GetBlobProperties (Some ''media'') ''none.jpg'', HeadObject (Some ''media'') ''none.jpg''])"
  by (simp_all add: storagesContainingFile_connected[OF exampleClient_connected] example_scopes
      blobFound_def objectFound_def example_answers locationSet_def ERROR_CODE_NOT_FOUND_def)

lemma location_bits:
  "(locationSet a b AND AzureBlobStorage \<noteq> 0) = a"
  "(locationSet a b AND AwsS3 \<noteq> 0) = b"
  "(locationSet a b AND AzureBlobStorage = 0) = (\<not> a)"
  "(locationSet a b AND AwsS3 = 0) = (\<not> b)"
  by (simp_all add: locationSet_def Undefined_def AzureBlobStorage_def AwsS3_def Both_def)

lemma storage_type_bits:
  "AzureBlobStorage AND AzureBlobStorage \<noteq> 0" "Both AND AzureBlobStorage \<noteq> 0"
  "AwsS3 AND AzureBlobStorage = 0" "Undefined AND AzureBlobStorage = 0"
  "AwsS3 AND AwsS3 \<noteq> 0" "Both AND AwsS3 \<noteq> 0"
  "AzureBlobStorage AND AwsS3 = 0" "Undefined AND AwsS3 = 0"
  "AzureBlobStorage \<noteq> 0" "AwsS3 \<noteq> 0" "Both \<noteq> 0"
  by (simp_all add: Undefined_def AzureBlobStorage_def AwsS3_def Both_def)

lemma archiveClient_connected:
  "connected archiveClient archiveAzure exampleBlobService archiveAws exampleS3"
  by (simp add: connected_def archiveClient_def archiveAzure_def archiveAws_def initialize_def
      Azure_initialize_def Aws_initialize_def exampleSdk_def Let_def)

lemma archive_defaults:
  "defaultContainerName archiveAzure = None" "defaultBucketName archiveAws = Some ''archive''"
  by (simp_all add: archiveAzure_def archiveAws_def Azure_initialize_def Aws_initialize_def Let_def)

lemma Azure_listFileNamesWithPrefix_connected:
  assumes "azureBlobService azure = Ref svc"
  shows "Azure_listFileNamesWithPrefix azure prefix cn =
     (listBlobsSegmentedWithPrefix svc (effectiveContainerName azure cn) prefix,
      [ListBlobsSegmentedWithPrefix (effectiveContainerName azure cn) prefix])"
  using assms
  by (simp add: Azure_listFileNamesWithPrefix_def Azure_listFilesWithPrefix_def member_def
      sdk_call_def resolve_def reject_def effectiveContainerName_def js_or_absorb Let_def
      await_pair await_fail try_catch_ok try_catch_fail split: sum.splits)

lemma Aws_listFileNamesWithPrefix_connected:
  assumes "s3Client aws = Ref s3"
  shows "Aws_listFileNamesWithPrefix aws prefix bn =
     (listObjectsV2 s3 (js_or bn (defaultBucketName aws)) (if truthy prefix then prefix else None),
      [ListObjectsV2 (js_or bn (defaultBucketName aws)) (if truthy prefix then prefix else None)])"
  using assms
  by (simp add: Aws_listFileNamesWithPrefix_def Aws_listFilesWithPrefix_def member_def
      sdk_call_def resolve_def reject_def Let_def
      await_pair await_fail split: sum.splits)

lemma listFileNamesWithPrefix_connected:
  assumes conn: "connected c azure svc aws s3"
  shows "listFileNamesWithPrefix c prefix cn bn =
     (case listObjectsV2 s3 (effectiveBucketName azure aws cn bn)
             (if truthy prefix then prefix else None) of
        Inl error \<Rightarrow> Inl error
      | Inr namesInS3 \<Rightarrow>
          Inr (case listBlobsSegmentedWithPrefix svc (effectiveContainerName azure cn) prefix of
                 Inl error \<Rightarrow> []
               | Inr fileNames \<Rightarrow> fileNames),
      [ListBlobsSegmentedWithPrefix (effectiveContainerName azure cn) prefix,
       ListObjectsV2 (effectiveBucketName azure aws cn bn) (if truthy prefix then prefix else None)])"
proof -
  note a = connected_fields[OF conn]
  show ?thesis
    by (simp add: listFileNamesWithPrefix_def resolveContainerName_connected[OF conn]
      resolveBucketName_connected[OF conn] await_resolve a member_def
      Azure_listFileNamesWithPrefix_connected[OF a(3)] Aws_listFileNamesWithPrefix_connected[OF a(4)]
      effectiveContainerName_idem effectiveBucketName_adapter
      await_pair await_fail try_catch_ok try_catch_fail resolve_def Let_def
      split: sum.splits)
qed

lemma start_pair: "start (r, t) = (Inr r, t)"
  by (simp add: start_def)

lemma Azure_deleteFiles_connected:
  assumes "azureBlobService azure = Ref svc"
  shows "Azure_deleteFiles azure paths cn =
     (Inr (), map (DeleteBlob (effectiveContainerName azure cn)) paths)"
  using assms
  by (simp add: Azure_deleteFiles_def member_def resolve_def effectiveContainerName_def Let_def)

lemma Aws_deleteFiles_connected:
  assumes "s3Client aws = Ref s3"
  shows "Aws_deleteFiles aws paths bn =
     Inr (case deleteObjects s3 (js_or bn (defaultBucketName aws)) paths of
            Some error \<Rightarrow> Inl error
          | None \<Rightarrow> Inr (),
          [DeleteObjects (js_or bn (defaultBucketName aws)) paths])"
  using assms
  by (simp add: Aws_deleteFiles_def sdk_call_def resolve_def reject_def Let_def
      split: option.splits)

lemma Azure_deleteFile_connected:
  assumes "azureBlobService azure = Ref svc"
  shows "Azure_deleteFile azure p cn =
     (case deleteBlob svc (effectiveContainerName azure cn) p of
        Some error \<Rightarrow> Inl error
      | None \<Rightarrow> Inr (),
      [DeleteBlob (effectiveContainerName azure cn) p])"
  using assms
  by (simp add: Azure_deleteFile_def member_def sdk_call_def resolve_def reject_def
      effectiveContainerName_def Let_def split: option.splits)

text \<open>
  With both adapters in place the result of \<^verbatim>\<open>deleteFiles\<close> is decided by the answer of S3
  alone: the answers of \<^verbatim>\<open>deleteBlob\<close> do not occur in it.
\<close>

lemma deleteFiles_connected:
  assumes conn: "connected c azure svc aws s3"
  shows "deleteFiles c paths cn bn =
     (Inr (case deleteObjects s3 (effectiveBucketName azure aws cn bn) paths of
             Some error \<Rightarrow> JsError error
           | None \<Rightarrow> JsNull),
      map (DeleteBlob (effectiveContainerName azure cn)) paths
        @ [DeleteObjects (effectiveBucketName azure aws cn bn) paths])"
proof -
  note a = connected_fields[OF conn]
  show ?thesis
    by (simp add: deleteFiles_def resolveContainerName_connected[OF conn]
      resolveBucketName_connected[OF conn] await_resolve a member_def
      Azure_deleteFiles_connected[OF a(3)] Aws_deleteFiles_connected[OF a(4)]
      effectiveContainerName_idem effectiveBucketName_adapter start_pair settled_def
      await_pair await_fail try_catch_ok try_catch_fail resolve_def Let_def
      split: option.splits)
qed

lemma uploadFileToStorage_connected:
  fixes cn bn ct :: js_string and p l :: string and storageToUse :: "StorageType option"
  assumes conn: "connected c azure svc aws s3"
  defines "container \<equiv> effectiveContainerName azure cn"
    and "bucket \<equiv> effectiveBucketName azure aws cn bn"
  defines "targets \<equiv> (case storageToUse of None \<Rightarrow> Both | Some s \<Rightarrow> if s = 0 then Both else s)"
  shows "uploadFileToStorage c l p storageToUse cn bn ct =
     (Inr (locationSet
             (targets AND AzureBlobStorage \<noteq> 0
                \<and> createBlockBlobFromLocalFile svc container p l = Inr ())
             (targets AND AwsS3 \<noteq> 0 \<and> upload s3 bucket p l ct = Inr ())),
      (if targets AND AzureBlobStorage \<noteq> 0
       then [CreateBlockBlobFromLocalFile container p l] else [])
      @ (if targets AND AwsS3 \<noteq> 0
         then [FsCreateReadStream l, Upload bucket p l ct] else []))"
proof -
  note a = connected_fields[OF conn]
  have t: "(case storageToUse of None \<Rightarrow> AzureBlobStorage OR AwsS3
            | Some s \<Rightarrow> if s = 0 then AzureBlobStorage OR AwsS3 else s) = targets"
    by (simp add: targets_def storage_types_distinct split: option.splits)
  show ?thesis
    unfolding uploadFileToStorage_def t Let_def container_def bucket_def
    by (cases "createBlockBlobFromLocalFile svc (effectiveContainerName azure cn) p l";
        cases "upload s3 (effectiveBucketName azure aws cn bn) p l ct")
      (simp_all add: resolveContainerName_connected[OF conn]
      resolveBucketName_connected[OF conn] await_resolve a member_def
      Azure_uploadFile_connected[OF a(3)] Aws_uploadFile_connected[OF a(4)]
      effectiveContainerName_idem effectiveBucketName_adapter start_pair settled_def
      await_pair await_fail try_catch_ok try_catch_fail resolve_def
      locationSet_def Undefined_def AzureBlobStorage_def AwsS3_def Both_def)
qed

section \<open>Initialisation state\<close>

text \<open>
  C10. On a client that was constructed and never initialized, \<^verbatim>\<open>isInitialized\<close> does not
  return false: both adapter fields are \<^verbatim>\<open>null\<close>, the call on the first one throws a
  \<^verbatim>\<open>TypeError\<close>. Each adapter compares its SDK field with \<^verbatim>\<open>undefined\<close> while the field
  starts as \<^verbatim>\<open>null\<close>, so a constructed, never initialized adapter reports itself as
  initialized.
\<close>

theorem isInitialized_fresh_client:
  "isInitialized new_MultiStorageClient = Inl TypeError
   \<and> isInitialized new_MultiStorageClient \<noteq> Inr False
   \<and> Azure_isInitialized new_AzureBlobStorageClient = True
   \<and> Aws_isInitialized new_AwsS3Client = True"
  by (simp add: isInitialized_def new_MultiStorageClient_def Azure_isInitialized_def
      new_AzureBlobStorageClient_def Aws_isInitialized_def new_AwsS3Client_def)

section \<open>Presence\<close>

text \<open>
  C9. For every path and every pair of scope arguments, \<^verbatim>\<open>fileExists\<close> resolves to true
  exactly when \<^verbatim>\<open>storagesContainingFile\<close>, called with the same arguments, resolves to a
  storage type other than \<^verbatim>\<open>StorageType.Undefined\<close>; it resolves to false exactly when
  that call resolves to \<^verbatim>\<open>StorageType.Undefined\<close>.
\<close>

theorem fileExists_iff_storagesContainingFile:
  "(fst (fileExists c p cn bn) = Inr True) =
     (\<exists>s. fst (storagesContainingFile c p cn bn) = Inr s \<and> s \<noteq> Undefined)
   \<and> (fst (fileExists c p cn bn) = Inr False) =
     (fst (storagesContainingFile c p cn bn) = Inr Undefined)"
proof (cases "storagesContainingFile c p cn bn")
  case (Pair r t)
  then show ?thesis
    by (cases r) (auto simp add: fileExists_def await_def resolve_def)
qed

section \<open>Files stored in neither storage\<close>

text \<open>
  C7. For every path that neither storage holds (the Azure probe does not answer with a
  successful status, the S3 probe answers with the not-found error),
  \<^verbatim>\<open>storagesContainingFile\<close> resolves to \<^verbatim>\<open>StorageType.Undefined\<close>, \<^verbatim>\<open>fileExists\<close> to false,
  and \<^verbatim>\<open>downloadFile\<close>, \<^verbatim>\<open>downloadFileToDisk\<close> and
  \<^verbatim>\<open>downloadFileToDiskAndReplicateIfNecessary\<close> to the not-found code. The only calls
  issued are the two probes, none of which creates the local destination file.
\<close>

theorem absent_everywhere:
  assumes conn: "connected c azure svc aws s3"
    and noBlob: "getBlobProperties svc (effectiveContainerName azure cn) p \<noteq> Inr True"
    and noObject: "headObject s3 (effectiveBucketName azure aws cn bn) p = Some e"
                  "code e = Some ERROR_CODE_NOT_FOUND"
  defines "probes \<equiv> [GetBlobProperties (effectiveContainerName azure cn) p,
                      HeadObject (effectiveBucketName azure aws cn bn) p]"
  shows "storagesContainingFile c p cn bn = (Inr Undefined, probes)
    \<and> fileExists c p cn bn = (Inr False, probes)
    \<and> downloadFile c p cn bn = (Inr (JsString ERROR_CODE_NOT_FOUND), probes)
    \<and> downloadFileToDisk c p l cn bn = (Inr (JsString ERROR_CODE_NOT_FOUND), probes)
    \<and> downloadFileToDiskAndReplicateIfNecessary c p l cn bn =
        (Inr (JsString ERROR_CODE_NOT_FOUND), probes)
    \<and> \<not> list_ex createsLocalFile probes"
proof -
  have nb: "\<not> blobFound svc (effectiveContainerName azure cn) p"
    using noBlob by (simp add: blobFound_def)
  have no: "\<not> objectFound s3 (effectiveBucketName azure aws cn bn) p"
    using noObject by (simp add: objectFound_def)
  have loc: "storagesContainingFile c p cn bn = (Inr Undefined, probes)"
    by (simp add: storagesContainingFile_connected[OF conn] nb no locationSet_def probes_def)
  have ex: "fileExists c p cn bn = (Inr False, probes)"
    by (simp add: fileExists_def loc await_pair resolve_def)
  have d1: "downloadFile c p cn bn = (Inr (JsString ERROR_CODE_NOT_FOUND), probes)"
    by (simp add: downloadFile_connected[OF conn] loc await_pair try_catch_ok resolve_def)
  have d2: "downloadFileToDisk c p l cn bn = (Inr (JsString ERROR_CODE_NOT_FOUND), probes)"
    by (simp add: downloadFileToDisk_connected[OF conn] loc await_pair try_catch_ok resolve_def)
  have d3: "downloadFileToDiskAndReplicateIfNecessary c p l cn bn =
      (Inr (JsString ERROR_CODE_NOT_FOUND), probes)"
    by (simp add: downloadFileToDiskAndReplicateIfNecessary_connected[OF conn] loc await_pair
        try_catch_ok resolve_def)
  have nf: "\<not> list_ex createsLocalFile probes"
    by (simp add: probes_def createsLocalFile_def)
  from loc ex d1 d2 d3 nf show ?thesis by simp
qed

theorem absent_everywhere_witness:
  "connected exampleClient exampleAzure exampleBlobService exampleAws exampleS3
   \<and> getBlobProperties exampleBlobService (Some ''media'') ''none.jpg'' \<noteq> Inr True
   \<and> headObject exampleS3 (Some ''media'') ''none.jpg'' = Some (SdkError ''NotFound'')
   \<and> storagesContainingFile exampleClient ''none.jpg'' None None =
       (Inr Undefined,
        [GetBlobProperties (Some ''media'') ''none.jpg'', HeadObject (Some ''media'') ''none.jpg''])
   \<and> fileExists exampleClient ''none.jpg'' None None =
       (Inr False,
        [GetBlobProperties (Some ''media'') ''none.jpg'', HeadObject (Some ''media'') ''none.jpg''])
   \<and> downloadFileToDisk exampleClient ''none.jpg'' ''/tmp/none.jpg'' None None =
       (Inr (JsString ''NotFound''),
        [GetBlobProperties (Some ''media'') ''none.jpg'', HeadObject (Some ''media'') ''none.jpg''])"
proof -
  have a: "getBlobProperties exampleBlobService (effectiveContainerName exampleAzure None)
             ''none.jpg'' \<noteq> Inr True"
    by (simp add: example_answers)
  have b: "headObject exampleS3 (effectiveBucketName exampleAzure exampleAws None None)
             ''none.jpg'' = Some (SdkError ''NotFound'')"
    by (simp add: example_answers)
  have c: "code (SdkError ''NotFound'') = Some ERROR_CODE_NOT_FOUND"
    by (simp add: ERROR_CODE_NOT_FOUND_def)
  show ?thesis
    using absent_everywhere[OF exampleClient_connected a b c, of "''/tmp/none.jpg''"]
    by (simp add: exampleClient_connected example_scopes example_answers ERROR_CODE_NOT_FOUND_def)
qed

section \<open>Replication on download\<close>

text \<open>
  C4. When exactly one storage holds the path, \<^verbatim>\<open>downloadFileToDiskAndReplicateIfNecessary\<close>
  downloads it from that storage to the local path and, once that download has
  succeeded, uploads that same local file to the other storage under the same storage
  path; a failed download is returned as the error and nothing is uploaded. When both
  storages hold the path it only downloads, from Azure Blob Storage, and uploads nothing.
\<close>

theorem replicate_when_in_one_storage:
  fixes cn bn :: js_string and p l :: string
  assumes conn: "connected c azure svc aws s3"
  defines "container \<equiv> effectiveContainerName azure cn"
    and "bucket \<equiv> effectiveBucketName azure aws cn bn"
  defines "probes \<equiv> [GetBlobProperties container p, HeadObject bucket p]"
  shows "(fst (storagesContainingFile c p cn bn) = Inr AzureBlobStorage \<longrightarrow>
            downloadFileToDiskAndReplicateIfNecessary c p l cn bn =
              (case getBlobToLocalFile svc container p l of
                 Inl error \<Rightarrow> (Inr (JsError error), probes @ [GetBlobToLocalFile container p l])
               | Inr done \<Rightarrow>
                   (Inr (case upload s3 bucket p l None of
                           Inl error \<Rightarrow> JsError error | Inr sent \<Rightarrow> JsNull),
                    probes @ [GetBlobToLocalFile container p l,
                              FsCreateReadStream l, Upload bucket p l None])))
       \<and> (fst (storagesContainingFile c p cn bn) = Inr AwsS3 \<longrightarrow>
            downloadFileToDiskAndReplicateIfNecessary c p l cn bn =
              (case getObject s3 bucket p of
                 Inl error \<Rightarrow>
                   (Inr (JsError error),
                    probes @ [FsCreateWriteStream l, GetObject bucket p, FsUnlink l])
               | Inr output \<Rightarrow>
                   (Inr (case createBlockBlobFromLocalFile svc container p l of
                           Inl error \<Rightarrow> JsError error | Inr created \<Rightarrow> JsNull),
                    probes @ [FsCreateWriteStream l, GetObject bucket p,
                              CreateBlockBlobFromLocalFile container p l])))
       \<and> (fst (storagesContainingFile c p cn bn) = Inr Both \<longrightarrow>
            downloadFileToDiskAndReplicateIfNecessary c p l cn bn =
              (Inr (case getBlobToLocalFile svc container p l of
                      Inl error \<Rightarrow> JsError error | Inr done \<Rightarrow> JsNull),
               probes @ [GetBlobToLocalFile container p l]))"
proof -
  note a = connected_fields[OF conn]
  note unfold = downloadFileToDiskAndReplicateIfNecessary_connected[OF conn]
  have loc: "storagesContainingFile c p cn bn = (Inr s, probes)"
    if "fst (storagesContainingFile c p cn bn) = Inr s" for s
    using storagesContainingFile_located[OF conn that]
    by (simp add: probes_def container_def bucket_def)
  have azureOnly: "downloadFileToDiskAndReplicateIfNecessary c p l cn bn =
              (case getBlobToLocalFile svc container p l of
                 Inl error \<Rightarrow> (Inr (JsError error), probes @ [GetBlobToLocalFile container p l])
               | Inr done \<Rightarrow>
                   (Inr (case upload s3 bucket p l None of
                           Inl error \<Rightarrow> JsError error | Inr sent \<Rightarrow> JsNull),
                    probes @ [GetBlobToLocalFile container p l,
                              FsCreateReadStream l, Upload bucket p l None]))"
    if "fst (storagesContainingFile c p cn bn) = Inr AzureBlobStorage"
    by (simp add: unfold loc[OF that] await_pair storage_types_distinct
        Azure_downloadFileToDisk_connected[OF a(3)] Aws_uploadFile_connected[OF a(4)]
        container_def bucket_def effectiveContainerName_idem effectiveBucketName_adapter
        await_fail try_catch_ok try_catch_fail resolve_def split: sum.splits)
  have s3Only: "downloadFileToDiskAndReplicateIfNecessary c p l cn bn =
              (case getObject s3 bucket p of
                 Inl error \<Rightarrow>
                   (Inr (JsError error),
                    probes @ [FsCreateWriteStream l, GetObject bucket p, FsUnlink l])
               | Inr output \<Rightarrow>
                   (Inr (case createBlockBlobFromLocalFile svc container p l of
                           Inl error \<Rightarrow> JsError error | Inr created \<Rightarrow> JsNull),
                    probes @ [FsCreateWriteStream l, GetObject bucket p,
                              CreateBlockBlobFromLocalFile container p l]))"
    if "fst (storagesContainingFile c p cn bn) = Inr AwsS3"
    by (simp add: unfold loc[OF that] await_pair storage_types_distinct
        Azure_uploadFile_connected[OF a(3)] Aws_downloadFileToDisk_connected[OF a(4)]
        container_def bucket_def effectiveContainerName_idem effectiveBucketName_adapter
        await_fail try_catch_ok try_catch_fail resolve_def split: sum.splits)
  have both: "downloadFileToDiskAndReplicateIfNecessary c p l cn bn =
              (Inr (case getBlobToLocalFile svc container p l of
                      Inl error \<Rightarrow> JsError error | Inr done \<Rightarrow> JsNull),
               probes @ [GetBlobToLocalFile container p l])"
    if "fst (storagesContainingFile c p cn bn) = Inr Both"
    by (simp add: unfold loc[OF that] await_pair storage_types_distinct
        Azure_downloadFileToDisk_connected[OF a(3)]
        container_def effectiveContainerName_idem
        await_fail try_catch_ok try_catch_fail resolve_def split: sum.splits)
  from azureOnly s3Only both show ?thesis by blast
qed

theorem replicate_when_in_one_storage_witness:
  "fst (storagesContainingFile exampleClient ''a.jpg'' None None) = Inr AzureBlobStorage
   \<and> downloadFileToDiskAndReplicateIfNecessary exampleClient ''a.jpg'' ''/tmp/a.jpg'' None None =
       (Inr JsNull,
        [GetBlobProperties (Some ''media'') ''a.jpg'', HeadObject (Some ''media'') ''a.jpg'',
         GetBlobToLocalFile (Some ''media'') ''a.jpg'' ''/tmp/a.jpg'',
         FsCreateReadStream ''/tmp/a.jpg'', Upload (Some ''media'') ''a.jpg'' ''/tmp/a.jpg'' None])
   \<and> fst (storagesContainingFile exampleClient ''b.jpg'' None None) = Inr AwsS3
   \<and> downloadFileToDiskAndReplicateIfNecessary exampleClient ''b.jpg'' ''/tmp/b.jpg'' None None =
       (Inr JsNull,
        [GetBlobProperties (Some ''media'') ''b.jpg'', HeadObject (Some ''media'') ''b.jpg'',
         FsCreateWriteStream ''/tmp/b.jpg'', GetObject (Some ''media'') ''b.jpg'',
         CreateBlockBlobFromLocalFile (Some ''media'') ''b.jpg'' ''/tmp/b.jpg''])
   \<and> fst (storagesContainingFile exampleClient ''ab.jpg'' None None) = Inr Both
   \<and> downloadFileToDiskAndReplicateIfNecessary exampleClient ''ab.jpg'' ''/tmp/ab.jpg'' None None =
       (Inr JsNull,
        [GetBlobProperties (Some ''media'') ''ab.jpg'', HeadObject (Some ''media'') ''ab.jpg'',
         GetBlobToLocalFile (Some ''media'') ''ab.jpg'' ''/tmp/ab.jpg''])"
  using
    replicate_when_in_one_storage[OF exampleClient_connected,
      of "''a.jpg''" None None "''/tmp/a.jpg''"]
    replicate_when_in_one_storage[OF exampleClient_connected,
      of "''b.jpg''" None None "''/tmp/b.jpg''"]
    replicate_when_in_one_storage[OF exampleClient_connected,
      of "''ab.jpg''" None None "''/tmp/ab.jpg''"]
  by (simp add: example_located example_scopes example_answers)

section \<open>Probe errors\<close>

text \<open>
  C1, as the code has it. No answer of an SDK probe makes \<^verbatim>\<open>storagesContainingFile\<close> fail:
  with both adapters in place it always resolves to a storage type. The Azure flag is set
  exactly when the Azure probe answers without error and with a successful status, so an
  error of that probe, of whatever kind, is reported as absence. The S3 flag is set when
  the S3 probe answers without error and clear when it answers with the not-found error.
\<close>

theorem storagesContainingFile_absorbs_probe_errors:
  assumes conn: "connected c azure svc aws s3"
  shows "\<exists>s. fst (storagesContainingFile c p cn bn) = Inr s
     \<and> (s AND AzureBlobStorage \<noteq> 0) =
         (getBlobProperties svc (effectiveContainerName azure cn) p = Inr True)
     \<and> (headObject s3 (effectiveBucketName azure aws cn bn) p = None \<longrightarrow> s AND AwsS3 \<noteq> 0)
     \<and> (\<forall>e. headObject s3 (effectiveBucketName azure aws cn bn) p = Some e
              \<and> code e = Some ERROR_CODE_NOT_FOUND \<longrightarrow> s AND AwsS3 = 0)"
  by (simp add: storagesContainingFile_connected[OF conn] location_bits blobFound_def
      objectFound_def split: option.splits)

theorem storagesContainingFile_absorbs_probe_errors_witness:
  "connected exampleClient exampleAzure exampleBlobService exampleAws exampleS3
   \<and> headObject exampleS3 (Some ''media'') ''b.jpg'' = None
   \<and> headObject exampleS3 (Some ''media'') ''down.jpg'' = Some (SdkError ''NotFound'')
   \<and> (\<exists>s. fst (storagesContainingFile exampleClient ''b.jpg'' None None) = Inr s
          \<and> s AND AzureBlobStorage = 0 \<and> s AND AwsS3 \<noteq> 0)
   \<and> (\<exists>s. fst (storagesContainingFile exampleClient ''down.jpg'' None None) = Inr s
          \<and> s AND AzureBlobStorage = 0 \<and> s AND AwsS3 = 0)"
  using storagesContainingFile_absorbs_probe_errors[OF exampleClient_connected, of "''b.jpg''" None None]
    storagesContainingFile_absorbs_probe_errors[OF exampleClient_connected, of "''down.jpg''" None None]
  by (simp add: exampleClient_connected example_scopes example_answers ERROR_CODE_NOT_FOUND_def)

text \<open>
  C1, as stated, fails: the Azure probe of \<open>down.jpg\<close> is answered with an authentication
  error, which is not the not-found condition, and \<^verbatim>\<open>storagesContainingFile\<close> resolves to
  \<^verbatim>\<open>StorageType.Undefined\<close> instead of failing.
\<close>

theorem storagesContainingFile_probe_error_counterexample:
  "getBlobProperties exampleBlobService (Some ''media'') ''down.jpg''
     = Inl (SdkError ''AuthenticationFailed'')
   \<and> code (SdkError ''AuthenticationFailed'') \<noteq> Some ERROR_CODE_NOT_FOUND
   \<and> storagesContainingFile exampleClient ''down.jpg'' None None
     = (Inr Undefined,
        [GetBlobProperties (Some ''media'') ''down.jpg'', HeadObject (Some ''media'') ''down.jpg''])"
  by (simp add: storagesContainingFile_connected[OF exampleClient_connected] example_scopes
      blobFound_def objectFound_def example_answers locationSet_def ERROR_CODE_NOT_FOUND_def)

section \<open>Download without replication\<close>

text \<open>
  C2, as the code has it. When no storage holds the path \<^verbatim>\<open>downloadFile\<close> resolves to the
  not-found code. When only S3 holds it, the object is read from S3 and the result is its
  payload, or the error of that read. When Azure Blob Storage holds it, alone or together
  with S3, Azure is preferred and S3 is not read; the Azure adapter's \<^verbatim>\<open>downloadFile\<close> is
  not implemented, so the result is its "Method not implemented" error.
\<close>

theorem downloadFile_by_location:
  fixes cn bn :: js_string and p :: string
  assumes conn: "connected c azure svc aws s3"
  defines "bucket \<equiv> effectiveBucketName azure aws cn bn"
  defines "probes \<equiv> [GetBlobProperties (effectiveContainerName azure cn) p, HeadObject bucket p]"
  shows "(fst (storagesContainingFile c p cn bn) = Inr Undefined \<longrightarrow>
            downloadFile c p cn bn = (Inr (JsString ERROR_CODE_NOT_FOUND), probes))
       \<and> (fst (storagesContainingFile c p cn bn) = Inr AwsS3 \<longrightarrow>
            downloadFile c p cn bn =
              (Inr (case getObject s3 bucket p of
                      Inl error \<Rightarrow> JsError error | Inr output \<Rightarrow> JsPayload output),
               probes @ [GetObject bucket p]))
       \<and> (fst (storagesContainingFile c p cn bn) = Inr AzureBlobStorage
            \<or> fst (storagesContainingFile c p cn bn) = Inr Both \<longrightarrow>
            downloadFile c p cn bn = (Inr (JsError (Error ''Method not implemented'')), probes))"
proof -
  note a = connected_fields[OF conn]
  note unfold = downloadFile_connected[OF conn]
  have loc: "storagesContainingFile c p cn bn = (Inr s, probes)"
    if "fst (storagesContainingFile c p cn bn) = Inr s" for s
    using storagesContainingFile_located[OF conn that]
    by (simp add: probes_def bucket_def)
  note bits = storage_type_bits
  have nowhere: "downloadFile c p cn bn = (Inr (JsString ERROR_CODE_NOT_FOUND), probes)"
    if "fst (storagesContainingFile c p cn bn) = Inr Undefined"
    by (simp add: unfold loc[OF that] await_pair try_catch_ok resolve_def)
  have s3Only: "downloadFile c p cn bn =
              (Inr (case getObject s3 bucket p of
                      Inl error \<Rightarrow> JsError error | Inr output \<Rightarrow> JsPayload output),
               probes @ [GetObject bucket p])"
    if "fst (storagesContainingFile c p cn bn) = Inr AwsS3"
    by (simp add: unfold loc[OF that] await_pair storage_types_distinct bits
        Aws_downloadFile_connected[OF a(4)] bucket_def effectiveBucketName_adapter
        await_fail try_catch_ok try_catch_fail resolve_def split: sum.splits)
  have azure: "downloadFile c p cn bn = (Inr (JsError (Error ''Method not implemented'')), probes)"
    if "fst (storagesContainingFile c p cn bn) = Inr s" "s = AzureBlobStorage \<or> s = Both" for s
    using that(2)
    by (auto simp add: unfold loc[OF that(1)] await_pair storage_types_distinct bits
        Azure_downloadFile_def invoke_def reject_def try_catch_fail resolve_def)
  from nowhere s3Only azure show ?thesis by blast
qed

theorem downloadFile_by_location_witness:
  "fst (storagesContainingFile exampleClient ''none.jpg'' None None) = Inr Undefined
   \<and> fst (downloadFile exampleClient ''none.jpg'' None None) = Inr (JsString ''NotFound'')
   \<and> fst (storagesContainingFile exampleClient ''b.jpg'' None None) = Inr AwsS3
   \<and> downloadFile exampleClient ''b.jpg'' None None =
       (Inr (JsPayload ''bytes''),
        [GetBlobProperties (Some ''media'') ''b.jpg'', HeadObject (Some ''media'') ''b.jpg'',
         GetObject (Some ''media'') ''b.jpg''])
   \<and> fst (storagesContainingFile exampleClient ''ab.jpg'' None None) = Inr Both
   \<and> downloadFile exampleClient ''ab.jpg'' None None =
       (Inr (JsError (Error ''Method not implemented'')),
        [GetBlobProperties (Some ''media'') ''ab.jpg'', HeadObject (Some ''media'') ''ab.jpg''])"
  using downloadFile_by_location[OF exampleClient_connected, of "''none.jpg''" None None]
    downloadFile_by_location[OF exampleClient_connected, of "''b.jpg''" None None]
    downloadFile_by_location[OF exampleClient_connected, of "''ab.jpg''" None None]
  by (simp add: example_located example_scopes example_answers ERROR_CODE_NOT_FOUND_def)

text \<open>
  C2, as stated, fails: \<open>a.jpg\<close> is held by Azure Blob Storage and \<open>ab.jpg\<close> by both
  storages, and \<^verbatim>\<open>downloadFile\<close> resolves to an error for both instead of a payload.
\<close>

theorem downloadFile_payload_counterexample:
  "fst (storagesContainingFile exampleClient ''a.jpg'' None None) = Inr AzureBlobStorage
   \<and> fst (downloadFile exampleClient ''a.jpg'' None None)
       = Inr (JsError (Error ''Method not implemented''))
   \<and> fst (storagesContainingFile exampleClient ''ab.jpg'' None None) = Inr Both
   \<and> fst (downloadFile exampleClient ''ab.jpg'' None None)
       = Inr (JsError (Error ''Method not implemented''))"
  by (simp add: downloadFile_connected[OF exampleClient_connected] example_located await_pair
      storage_types_distinct storage_type_bits Azure_downloadFile_def invoke_def reject_def
      try_catch_fail resolve_def)

section \<open>Listing\<close>

text \<open>
  C3, as the code has it. \<^verbatim>\<open>listFileNamesWithPrefix\<close> catches a failure of the Azure listing
  and still succeeds when the S3 listing succeeds; a failure of the S3 listing is not
  caught and fails the call with that error. When both listings succeed, every name that
  Azure returned is in the result.
\<close>

theorem listFileNamesWithPrefix_by_listing:
  fixes cn bn prefix :: js_string
  assumes conn: "connected c azure svc aws s3"
  defines "azureListing \<equiv> listBlobsSegmentedWithPrefix svc (effectiveContainerName azure cn) prefix"
    and "s3Listing \<equiv> listObjectsV2 s3 (effectiveBucketName azure aws cn bn)
                        (if truthy prefix then prefix else None)"
  shows "(\<forall>error. s3Listing = Inl error \<longrightarrow>
            fst (listFileNamesWithPrefix c prefix cn bn) = Inl error)
       \<and> (\<forall>azureNames namesInS3. azureListing = Inr azureNames \<and> s3Listing = Inr namesInS3 \<longrightarrow>
            (\<exists>names. fst (listFileNamesWithPrefix c prefix cn bn) = Inr names
                     \<and> set azureNames \<subseteq> set names))
       \<and> (\<forall>error namesInS3. azureListing = Inl error \<and> s3Listing = Inr namesInS3 \<longrightarrow>
            (\<exists>names. fst (listFileNamesWithPrefix c prefix cn bn) = Inr names))"
proof -
  note closed = listFileNamesWithPrefix_connected[OF conn, of prefix cn bn]
  have s3Fails: "fst (listFileNamesWithPrefix c prefix cn bn) = Inl error"
    if "s3Listing = Inl error" for error
    using that by (simp add: closed s3Listing_def)
  have bothSucceed: "fst (listFileNamesWithPrefix c prefix cn bn) = Inr azureNames"
    if "azureListing = Inr azureNames" "s3Listing = Inr namesInS3" for azureNames namesInS3
    using that by (simp add: closed azureListing_def s3Listing_def)
  have azureFails: "fst (listFileNamesWithPrefix c prefix cn bn) = Inr []"
    if "azureListing = Inl error" "s3Listing = Inr namesInS3" for error namesInS3
    using that by (simp add: closed azureListing_def s3Listing_def)
  from s3Fails bothSucceed azureFails show ?thesis
    by (metis order_refl)
qed

theorem listFileNamesWithPrefix_by_listing_witness:
  "connected exampleClient exampleAzure exampleBlobService exampleAws exampleS3
   \<and> listObjectsV2 exampleS3 (Some ''media'') (Some ''s3down'') = Inl (SdkError ''SlowDown'')
   \<and> fst (listFileNamesWithPrefix exampleClient (Some ''s3down'') None None)
       = Inl (SdkError ''SlowDown'')
   \<and> listBlobsSegmentedWithPrefix exampleBlobService (Some ''media'') (Some ''img'')
       = Inr [''a.jpg'', ''ab.jpg'']
   \<and> listObjectsV2 exampleS3 (Some ''media'') (Some ''img'') = Inr [''b.jpg'', ''ab.jpg'']
   \<and> (\<exists>names. fst (listFileNamesWithPrefix exampleClient (Some ''img'') None None) = Inr names
          \<and> set [''a.jpg'', ''ab.jpg''] \<subseteq> set names)
   \<and> listBlobsSegmentedWithPrefix exampleBlobService (Some ''media'') (Some ''azdown'')
       = Inl (SdkError ''ServerBusy'')
   \<and> listObjectsV2 exampleS3 (Some ''media'') (Some ''azdown'') = Inr [''b.jpg'', ''ab.jpg'']
   \<and> (\<exists>names. fst (listFileNamesWithPrefix exampleClient (Some ''azdown'') None None) = Inr names)"
proof -
  have l: "listObjectsV2 exampleS3 (Some ''media'') (Some ''s3down'') = Inl (SdkError ''SlowDown'')"
    "listBlobsSegmentedWithPrefix exampleBlobService (Some ''media'') (Some ''img'')
       = Inr [''a.jpg'', ''ab.jpg'']"
    "listObjectsV2 exampleS3 (Some ''media'') (Some ''img'') = Inr [''b.jpg'', ''ab.jpg'']"
    "listBlobsSegmentedWithPrefix exampleBlobService (Some ''media'') (Some ''azdown'')
       = Inl (SdkError ''ServerBusy'')"
    "listObjectsV2 exampleS3 (Some ''media'') (Some ''azdown'') = Inr [''b.jpg'', ''ab.jpg'']"
    by (simp_all add: exampleBlobService_def exampleS3_def)
  have t: "truthy (Some ''s3down'')" "truthy (Some ''img'')" "truthy (Some ''azdown'')"
    by (simp_all add: truthy_def)
  show ?thesis
    using
      listFileNamesWithPrefix_by_listing[OF exampleClient_connected, where prefix = "Some ''s3down''" and cn = None and bn = None]
      listFileNamesWithPrefix_by_listing[OF exampleClient_connected, where prefix = "Some ''img''" and cn = None and bn = None]
      listFileNamesWithPrefix_by_listing[OF exampleClient_connected, where prefix = "Some ''azdown''" and cn = None and bn = None]
    by (simp add: exampleClient_connected example_scopes l t)
qed

text \<open>
  C3, as stated, fails twice. Both listings succeed for the prefix \<open>img\<close> and S3 returns
  \<open>b.jpg\<close>, which is not in the result. For the prefix \<open>s3down\<close> only the S3 listing
  fails, and the call fails with its error instead of returning the names from Azure.
\<close>

theorem listFileNamesWithPrefix_counterexample:
  "listBlobsSegmentedWithPrefix exampleBlobService (Some ''media'') (Some ''img'')
     = Inr [''a.jpg'', ''ab.jpg'']
   \<and> listObjectsV2 exampleS3 (Some ''media'') (Some ''img'') = Inr [''b.jpg'', ''ab.jpg'']
   \<and> fst (listFileNamesWithPrefix exampleClient (Some ''img'') None None)
     = Inr [''a.jpg'', ''ab.jpg'']
   \<and> listBlobsSegmentedWithPrefix exampleBlobService (Some ''media'') (Some ''s3down'')
     = Inr [''a.jpg'', ''ab.jpg'']
   \<and> listObjectsV2 exampleS3 (Some ''media'') (Some ''s3down'') = Inl (SdkError ''SlowDown'')
   \<and> fst (listFileNamesWithPrefix exampleClient (Some ''s3down'') None None)
     = Inl (SdkError ''SlowDown'')"
  by (simp add: listFileNamesWithPrefix_connected[OF exampleClient_connected] example_scopes
      truthy_def exampleBlobService_def exampleS3_def)

section \<open>Upload\<close>

text \<open>
  C5. \<^verbatim>\<open>uploadFileToStorage\<close> issues the upload of every targeted storage, Azure Blob
  Storage first, and of no other storage. It never fails because a targeted storage's
  upload fails: it resolves to the storage type made of exactly the targeted storages
  whose upload succeeded. In particular, when both storages are targeted, the Azure
  upload succeeds and the S3 upload fails, both uploads have been issued and the result
  is \<^verbatim>\<open>StorageType.AzureBlobStorage\<close> alone.
\<close>

theorem uploadFileToStorage_reports_successes:
  fixes cn bn ct :: js_string and p l :: string and storageToUse :: "StorageType option"
  assumes conn: "connected c azure svc aws s3"
  defines "targets \<equiv> (case storageToUse of None \<Rightarrow> Both | Some s \<Rightarrow> if s = 0 then Both else s)"
  defines "azureStore \<equiv> createBlockBlobFromLocalFile svc (effectiveContainerName azure cn) p l"
    and "s3Store \<equiv> upload s3 (effectiveBucketName azure aws cn bn) p l ct"
  shows "uploadFileToStorage c l p storageToUse cn bn ct =
           (Inr (locationSet (targets AND AzureBlobStorage \<noteq> 0 \<and> azureStore = Inr ())
                             (targets AND AwsS3 \<noteq> 0 \<and> s3Store = Inr ())),
            (if targets AND AzureBlobStorage \<noteq> 0
             then [CreateBlockBlobFromLocalFile (effectiveContainerName azure cn) p l] else [])
            @ (if targets AND AwsS3 \<noteq> 0
               then [FsCreateReadStream l, Upload (effectiveBucketName azure aws cn bn) p l ct]
               else []))
       \<and> (targets = Both \<and> azureStore = Inr () \<and> s3Store \<noteq> Inr () \<longrightarrow>
            uploadFileToStorage c l p storageToUse cn bn ct =
              (Inr AzureBlobStorage,
               [CreateBlockBlobFromLocalFile (effectiveContainerName azure cn) p l,
                FsCreateReadStream l, Upload (effectiveBucketName azure aws cn bn) p l ct]))"
proof -
  note closed = uploadFileToStorage_connected[OF conn, of l p storageToUse cn bn ct]
  have outcome: "uploadFileToStorage c l p storageToUse cn bn ct =
           (Inr (locationSet (targets AND AzureBlobStorage \<noteq> 0 \<and> azureStore = Inr ())
                             (targets AND AwsS3 \<noteq> 0 \<and> s3Store = Inr ())),
            (if targets AND AzureBlobStorage \<noteq> 0
             then [CreateBlockBlobFromLocalFile (effectiveContainerName azure cn) p l] else [])
            @ (if targets AND AwsS3 \<noteq> 0
               then [FsCreateReadStream l, Upload (effectiveBucketName azure aws cn bn) p l ct]
               else []))"
    using closed by (simp add: targets_def azureStore_def s3Store_def)
  have s3Fails: "uploadFileToStorage c l p storageToUse cn bn ct =
              (Inr AzureBlobStorage,
               [CreateBlockBlobFromLocalFile (effectiveContainerName azure cn) p l,
                FsCreateReadStream l, Upload (effectiveBucketName azure aws cn bn) p l ct])"
    if "targets = Both" "azureStore = Inr ()" "s3Store \<noteq> Inr ()"
    using that by (simp add: outcome locationSet_def storage_type_bits)
  from outcome s3Fails show ?thesis by blast
qed

theorem uploadFileToStorage_reports_successes_witness:
  "connected exampleClient exampleAzure exampleBlobService exampleAws exampleS3
   \<and> createBlockBlobFromLocalFile exampleBlobService (Some ''media'') ''s3fail.jpg'' ''/tmp/x.jpg''
       = Inr ()
   \<and> upload exampleS3 (Some ''media'') ''s3fail.jpg'' ''/tmp/x.jpg'' None \<noteq> Inr ()
   \<and> uploadFileToStorage exampleClient ''/tmp/x.jpg'' ''s3fail.jpg'' (Some Both) None None None
       = (Inr AzureBlobStorage,
          [CreateBlockBlobFromLocalFile (Some ''media'') ''s3fail.jpg'' ''/tmp/x.jpg'',
           FsCreateReadStream ''/tmp/x.jpg'',
           Upload (Some ''media'') ''s3fail.jpg'' ''/tmp/x.jpg'' None])
   \<and> uploadFileToStorage exampleClient ''/tmp/x.jpg'' ''a.jpg'' None None None None
       = (Inr Both,
          [CreateBlockBlobFromLocalFile (Some ''media'') ''a.jpg'' ''/tmp/x.jpg'',
           FsCreateReadStream ''/tmp/x.jpg'',
           Upload (Some ''media'') ''a.jpg'' ''/tmp/x.jpg'' None])
   \<and> uploadFileToStorage exampleClient ''/tmp/x.jpg'' ''a.jpg'' (Some AwsS3) None None None
       = (Inr AwsS3,
          [FsCreateReadStream ''/tmp/x.jpg'',
           Upload (Some ''media'') ''a.jpg'' ''/tmp/x.jpg'' None])"
  using
    uploadFileToStorage_reports_successes[OF exampleClient_connected,
      where p = "''s3fail.jpg''" and l = "''/tmp/x.jpg''" and storageToUse = "Some Both"
        and cn = None and bn = None and ct = None]
    uploadFileToStorage_reports_successes[OF exampleClient_connected,
      where p = "''a.jpg''" and l = "''/tmp/x.jpg''" and storageToUse = None
        and cn = None and bn = None and ct = None]
    uploadFileToStorage_reports_successes[OF exampleClient_connected,
      where p = "''a.jpg''" and l = "''/tmp/x.jpg''" and storageToUse = "Some AwsS3"
        and cn = None and bn = None and ct = None]
  by (simp add: exampleClient_connected example_scopes example_answers storage_type_bits
      locationSet_def)

section \<open>Deletion\<close>

text \<open>
  C6, at an input where the code departs from it. Azure answers the deletion of
  \<open>locked.jpg\<close> with an error and S3 deletes it; \<^verbatim>\<open>deleteFiles\<close> issues both deletions and
  resolves to \<^verbatim>\<open>null\<close>, although one storage failed. The adapter's \<^verbatim>\<open>deleteFile\<close>, for the
  same blob, rejects with that error.
\<close>

theorem deleteFiles_drops_azure_failure:
  "deleteBlob exampleBlobService (Some ''media'') ''locked.jpg'' = Some (SdkError ''LeaseIdMissing'')
   \<and> deleteObjects exampleS3 (Some ''media'') [''locked.jpg''] = None
   \<and> deleteFiles exampleClient [''locked.jpg''] None None =
       (Inr JsNull,
        [DeleteBlob (Some ''media'') ''locked.jpg'', DeleteObjects (Some ''media'') [''locked.jpg'']])
   \<and> fst (Azure_deleteFile exampleAzure ''locked.jpg'' None) = Inl (SdkError ''LeaseIdMissing'')"
  by (simp add: deleteFiles_connected[OF exampleClient_connected] example_scopes
      Azure_deleteFile_connected[OF connected_fields(3)[OF exampleClient_connected]]
      exampleBlobService_def exampleS3_def)

section \<open>Container and bucket names\<close>

text \<open>
  C8, as the code has it. When the container argument is omitted, the container that
  reaches Azure is the Azure adapter's default container name, whatever the bucket side
  holds. When the bucket argument is omitted, the bucket that reaches S3 is the S3
  adapter's default bucket name if that is not empty, and otherwise the container name
  in effect: the container argument if given, else the Azure adapter's default.
  \<^verbatim>\<open>downloadFileToDiskAndReplicateIfNecessary\<close> probes with the same two names.
\<close>

theorem scope_resolution:
  fixes cn bn :: js_string and p l :: string
  assumes conn: "connected c azure svc aws s3"
  shows "snd (storagesContainingFile c p None bn) =
           [GetBlobProperties (defaultContainerName azure) p,
            HeadObject (effectiveBucketName azure aws None bn) p]
       \<and> snd (storagesContainingFile c p cn None) =
           [GetBlobProperties (js_or cn (defaultContainerName azure)) p,
            HeadObject (if truthy (defaultBucketName aws) then defaultBucketName aws
                        else if truthy (js_or cn (defaultContainerName azure))
                             then js_or cn (defaultContainerName azure)
                             else defaultBucketName aws) p]
       \<and> take 2 (snd (downloadFileToDiskAndReplicateIfNecessary c p l cn bn)) =
           snd (storagesContainingFile c p cn bn)"
proof -
  have one: "snd (storagesContainingFile c p None bn) =
           [GetBlobProperties (defaultContainerName azure) p,
            HeadObject (effectiveBucketName azure aws None bn) p]"
    by (simp add: storagesContainingFile_connected[OF conn] effectiveContainerName_def
        js_or_def truthy_def)
  have two: "snd (storagesContainingFile c p cn None) =
           [GetBlobProperties (js_or cn (defaultContainerName azure)) p,
            HeadObject (if truthy (defaultBucketName aws) then defaultBucketName aws
                        else if truthy (js_or cn (defaultContainerName azure))
                             then js_or cn (defaultContainerName azure)
                             else defaultBucketName aws) p]"
    by (simp add: storagesContainingFile_connected[OF conn] effectiveContainerName_def
        effectiveBucketName_def js_or_def truthy_def)
  have three: "take 2 (snd (downloadFileToDiskAndReplicateIfNecessary c p l cn bn)) =
           snd (storagesContainingFile c p cn bn)"
    by (simp add: downloadFileToDiskAndReplicateIfNecessary_connected[OF conn]
        storagesContainingFile_connected[OF conn] await_pair)
  from one two three show ?thesis by simp
qed

theorem scope_resolution_witness:
  "connected exampleClient exampleAzure exampleBlobService exampleAws exampleS3
   \<and> defaultContainerName exampleAzure = Some ''media''
   \<and> defaultBucketName exampleAws = None
   \<and> snd (storagesContainingFile exampleClient ''a.jpg'' None None) =
       [GetBlobProperties (Some ''media'') ''a.jpg'', HeadObject (Some ''media'') ''a.jpg'']
   \<and> snd (storagesContainingFile exampleClient ''a.jpg'' (Some ''photos'') None) =
       [GetBlobProperties (Some ''photos'') ''a.jpg'', HeadObject (Some ''photos'') ''a.jpg'']"
  using scope_resolution[OF exampleClient_connected, where p = "''a.jpg''" and cn = None and bn = None]
    scope_resolution[OF exampleClient_connected, where p = "''a.jpg''" and cn = "Some ''photos''"
      and bn = None]
  by (simp add: exampleClient_connected example_defaults js_or_def truthy_def)

text \<open>
  C8, as stated, fails on the container side: with no container argument, no default
  container name and the default bucket name \<open>archive\<close>, the Azure probe is issued with
  an undefined container, not with \<open>archive\<close>.
\<close>

theorem scope_resolution_counterexample:
  "defaultContainerName archiveAzure = None
   \<and> defaultBucketName archiveAws = Some ''archive''
   \<and> connected archiveClient archiveAzure exampleBlobService archiveAws exampleS3
   \<and> snd (storagesContainingFile archiveClient ''a.jpg'' None None) =
       [GetBlobProperties None ''a.jpg'', HeadObject (Some ''archive'') ''a.jpg'']"
  by (simp add: storagesContainingFile_connected[OF archiveClient_connected] archive_defaults
      archiveClient_connected effectiveContainerName_def effectiveBucketName_def js_or_def
      truthy_def)

end
